theory Spec2Isabelle
  imports Complex_Main "HOL-Library.AList" "HOL-Library.Multiset" "HOL-Library.Char_ord"
    "HOL-Library.List_Lexorder"
begin

section \<open>JavaScript values\<close>

text \<open>
  The program handles untyped JSON documents (\<^verbatim>\<open>Record<string, unknown>\<close>).
  A value is a \<open>json\<close>; an object is an association list in property order, read with
  \<open>map_of\<close> (first binding) and written with \<open>AList.update\<close> (in place when the key
  exists, appended otherwise), which is what property assignment does.
  Strings are lists of code units; numbers are the integers (the counts, efforts and
  status codes the program handles) and \<open>NaN\<close>.
\<close>

datatype json =
    JUndefined
  | JNull
  | JBool bool
  | JNum int
  | JNaN
  | JStr string
  | JArr "json list"
  | JObj "(string \<times> json) list"

type_synonym obj = "(string \<times> json) list"

fun digit_char :: "nat \<Rightarrow> char" where
  "digit_char n = char_of (48 + n)"

fun show_nat :: "nat \<Rightarrow> string" where
  "show_nat n = (if n < 10 then [digit_char n] else show_nat (n div 10) @ [digit_char (n mod 10)])"

definition show_int :: "int \<Rightarrow> string" where
  "show_int i = (if i < 0 then CHR ''-'' # show_nat (nat (- i)) else show_nat (nat i))"

text \<open>\<^verbatim>\<open>obj[key]\<close>: a missing property reads as \<^verbatim>\<open>undefined\<close>.\<close>

definition lookup :: "obj \<Rightarrow> string \<Rightarrow> json" where
  "lookup kvs k = (case map_of kvs k of None \<Rightarrow> JUndefined | Some v \<Rightarrow> v)"

text \<open>
  \<^verbatim>\<open>v.key\<close> and \<^verbatim>\<open>key in v\<close> on a value: the own properties of objects, the
  indices and \<^verbatim>\<open>length\<close> of arrays and strings (properties inherited from the
  prototypes are not modelled).
\<close>

definition index_key :: "string \<Rightarrow> nat \<Rightarrow> nat option" where
  "index_key k n = List.find (\<lambda>i. show_nat i = k) [0 ..< n]"

definition get_prop :: "json \<Rightarrow> string \<Rightarrow> json" where
  "get_prop v k = (case v of
      JObj kvs \<Rightarrow> lookup kvs k
    | JArr xs \<Rightarrow>
        (if k = ''length'' then JNum (int (length xs))
         else (case index_key k (length xs) of Some i \<Rightarrow> xs ! i | None \<Rightarrow> JUndefined))
    | JStr s \<Rightarrow>
        (if k = ''length'' then JNum (int (length s))
         else (case index_key k (length s) of Some i \<Rightarrow> JStr [s ! i] | None \<Rightarrow> JUndefined))
    | _ \<Rightarrow> JUndefined)"

definition has_prop :: "json \<Rightarrow> string \<Rightarrow> bool" where
  "has_prop v k = (case v of
      JObj kvs \<Rightarrow> map_of kvs k \<noteq> None
    | JArr xs \<Rightarrow> k = ''length'' \<or> index_key k (length xs) \<noteq> None
    | _ \<Rightarrow> False)"

definition nullish :: "json \<Rightarrow> bool" where
  "nullish v = (v = JUndefined \<or> v = JNull)"

text \<open>\<^verbatim>\<open>a ?? b\<close>\<close>

definition coalesce :: "json \<Rightarrow> json \<Rightarrow> json" where
  "coalesce a b = (if nullish a then b else a)"

text \<open>\<^verbatim>\<open>out.key ??= v\<close>\<close>

definition nullish_assign :: "string \<Rightarrow> json \<Rightarrow> obj \<Rightarrow> obj" where
  "nullish_assign k v kvs = (if nullish (lookup kvs k) then AList.update k v kvs else kvs)"

definition truthy :: "json \<Rightarrow> bool" where
  "truthy v = (case v of
      JUndefined \<Rightarrow> False
    | JNull \<Rightarrow> False
    | JBool b \<Rightarrow> b
    | JNum n \<Rightarrow> n \<noteq> 0
    | JNaN \<Rightarrow> False
    | JStr s \<Rightarrow> s \<noteq> []
    | JArr _ \<Rightarrow> True
    | JObj _ \<Rightarrow> True)"

text \<open>Truthiness of an optional string argument: present and not empty.\<close>

definition given :: "string option \<Rightarrow> bool" where
  "given s = (case s of None \<Rightarrow> False | Some t \<Rightarrow> t \<noteq> [])"

definition flag :: "bool option \<Rightarrow> bool" where
  "flag b = (case b of None \<Rightarrow> False | Some t \<Rightarrow> t)"

text \<open>\<^verbatim>\<open>typeof v === "object" && v !== null\<close>: objects and arrays.\<close>

definition is_object :: "json \<Rightarrow> bool" where
  "is_object v = (case v of JObj _ \<Rightarrow> True | JArr _ \<Rightarrow> True | _ \<Rightarrow> False)"

fun intercalate :: "string \<Rightarrow> string list \<Rightarrow> string" where
  "intercalate sep [] = []"
| "intercalate sep [x] = x"
| "intercalate sep (x # y # ys) = x @ sep @ intercalate sep (y # ys)"

text \<open>\<^verbatim>\<open>String(v)\<close>\<close>

fun js_String :: "json \<Rightarrow> string" where
  "js_String JUndefined = ''undefined''"
| "js_String JNull = ''null''"
| "js_String (JBool b) = (if b then ''true'' else ''false'')"
| "js_String (JNum n) = show_int n"
| "js_String JNaN = ''NaN''"
| "js_String (JStr s) = s"
| "js_String (JArr xs) =
     intercalate '','' (map (\<lambda>x. if x = JUndefined \<or> x = JNull then [] else js_String x) xs)"
| "js_String (JObj kvs) = ''[object Object]''"

definition hex_char :: "nat \<Rightarrow> char" where
  "hex_char n = (if n < 10 then char_of (48 + n) else char_of (87 + n))"

definition json_escape :: "char \<Rightarrow> string" where
  "json_escape c = (let n = (of_char c :: nat) in
     if c = CHR 0x22 then [CHR 0x5C, CHR 0x22]
     else if c = CHR 0x5C then [CHR 0x5C, CHR 0x5C]
     else if n = 8 then [CHR 0x5C, CHR ''b'']
     else if n = 9 then [CHR 0x5C, CHR ''t'']
     else if n = 10 then [CHR 0x5C, CHR ''n'']
     else if n = 12 then [CHR 0x5C, CHR ''f'']
     else if n = 13 then [CHR 0x5C, CHR ''r'']
     else if n < 32 then [CHR 0x5C, CHR ''u'', CHR ''0'', CHR ''0'', hex_char (n div 16), hex_char (n mod 16)]
     else [c])"

definition json_quote :: "string \<Rightarrow> string" where
  "json_quote s = [CHR 0x22] @ concat (map json_escape s) @ [CHR 0x22]"

text \<open>\<^verbatim>\<open>JSON.stringify(v)\<close>; \<open>None\<close> is \<^verbatim>\<open>undefined\<close>.\<close>

fun JSON_stringify :: "json \<Rightarrow> string option" where
  "JSON_stringify JUndefined = None"
| "JSON_stringify JNull = Some ''null''"
| "JSON_stringify (JBool b) = Some (if b then ''true'' else ''false'')"
| "JSON_stringify (JNum n) = Some (show_int n)"
| "JSON_stringify JNaN = Some ''null''"
| "JSON_stringify (JStr s) = Some (json_quote s)"
| "JSON_stringify (JArr xs) =
     Some (''['' @ intercalate '',''
        (map (\<lambda>x. case JSON_stringify x of None \<Rightarrow> ''null'' | Some t \<Rightarrow> t) xs) @ '']'')"
| "JSON_stringify (JObj kvs) =
     Some (''{'' @ intercalate '',''
        (concat (map (\<lambda>(k, v). case JSON_stringify v of None \<Rightarrow> []
                                | Some t \<Rightarrow> [json_quote k @ '':'' @ t]) kvs)) @ ''}'')"

definition is_ws :: "char \<Rightarrow> bool" where
  "is_ws c = (of_char c \<in> {9, 10, 11, 12, 13, 32, 160 :: nat})"

definition is_digit :: "char \<Rightarrow> bool" where
  "is_digit c = (48 \<le> (of_char c :: nat) \<and> (of_char c :: nat) \<le> 57)"

text \<open>\<^verbatim>\<open>s.trim()\<close>\<close>

definition trim :: "string \<Rightarrow> string" where
  "trim s = rev (dropWhile is_ws (rev (dropWhile is_ws s)))"

text \<open>\<^verbatim>\<open>s.split(",")\<close>, for any separator character: never empty.\<close>

fun split :: "char \<Rightarrow> string \<Rightarrow> string list" where
  "split sep [] = [[]]"
| "split sep (c # cs) =
     (if c = sep then [] # split sep cs
      else (case split sep cs of [] \<Rightarrow> [[c]] | w # ws \<Rightarrow> (c # w) # ws))"

text \<open>\<^verbatim>\<open>parseInt(s, 10)\<close>; \<open>None\<close> is \<^verbatim>\<open>NaN\<close>.\<close>

definition parseInt10 :: "string \<Rightarrow> int option" where
  "parseInt10 s =
     (let t = dropWhile is_ws s;
          neg = (case t of [] \<Rightarrow> False | c # _ \<Rightarrow> c = CHR ''-'');
          u = (case t of [] \<Rightarrow> [] | c # r \<Rightarrow> if c = CHR ''-'' \<or> c = CHR ''+'' then r else t);
          ds = takeWhile is_digit u;
          n = foldl (\<lambda>a c. 10 * a + (int (of_char c) - 48)) 0 ds
      in if ds = [] then None else Some (if neg then - n else n))"

text \<open>\<^verbatim>\<open>{ ...v }\<close>: the own enumerable properties of any value.\<close>

definition spread :: "json \<Rightarrow> obj" where
  "spread v = (case v of
      JObj kvs \<Rightarrow> kvs
    | JArr xs \<Rightarrow> zip (map show_nat [0 ..< length xs]) xs
    | JStr s \<Rightarrow> zip (map show_nat [0 ..< length s]) (map (\<lambda>c. JStr [c]) s)
    | _ \<Rightarrow> [])"

section \<open>Errors (errors.ts)\<close>

text \<open>
  \<open>CliError\<close>, its subclass \<open>SetupError\<close>, and \<open>HTTPError\<close> (code, reason, body) carry
  what the constructors take; \<open>TypeError\<close> stands for an exception of the runtime.
\<close>

datatype error =
    CliError string
  | SetupError string
  | HTTPError nat string string
  | TypeError string

fun message :: "error \<Rightarrow> string" where
  "message (CliError m) = m"
| "message (SetupError m) = m"
| "message (HTTPError code reason errorBody) = ''HTTP '' @ show_nat code @ '': '' @ reason"
| "message (TypeError m) = m"

section \<open>Security layer (security.ts)\<close>

subsection \<open>Regular expressions of the injection patterns\<close>

text \<open>
  \<^verbatim>\<open>pattern.test(text)\<close> asks whether some substring is in the language of the
  pattern; the patterns use classes, sequence, alternation and repetition only, so a
  derivative matcher decides it.
\<close>

datatype rx = Zero | Eps | Cls "char list" | Seq rx rx | Alt rx rx | Star rx

fun nullable :: "rx \<Rightarrow> bool" where
  "nullable Zero = False"
| "nullable Eps = True"
| "nullable (Cls cs) = False"
| "nullable (Seq r s) = (nullable r \<and> nullable s)"
| "nullable (Alt r s) = (nullable r \<or> nullable s)"
| "nullable (Star r) = True"

fun deriv :: "char \<Rightarrow> rx \<Rightarrow> rx" where
  "deriv c Zero = Zero"
| "deriv c Eps = Zero"
| "deriv c (Cls cs) = (if c \<in> set cs then Eps else Zero)"
| "deriv c (Seq r s) =
     (if nullable r then Alt (Seq (deriv c r) s) (deriv c s) else Seq (deriv c r) s)"
| "deriv c (Alt r s) = Alt (deriv c r) (deriv c s)"
| "deriv c (Star r) = Seq (deriv c r) (Star r)"

text \<open>Some prefix of the text matches.\<close>

fun match_prefix :: "rx \<Rightarrow> string \<Rightarrow> bool" where
  "match_prefix r [] = nullable r"
| "match_prefix r (c # cs) = (nullable r \<or> match_prefix (deriv c r) cs)"

text \<open>A match starting anywhere.\<close>

fun rx_test :: "rx \<Rightarrow> string \<Rightarrow> bool" where
  "rx_test r [] = nullable r"
| "rx_test r (c # cs) = (match_prefix r (c # cs) \<or> rx_test r cs)"

text \<open>A match starting at the start of a line (\<^verbatim>\<open>^\<close> with the \<^verbatim>\<open>m\<close> flag).\<close>

fun rx_test_bol :: "bool \<Rightarrow> rx \<Rightarrow> string \<Rightarrow> bool" where
  "rx_test_bol bol r [] = (bol \<and> nullable r)"
| "rx_test_bol bol r (c # cs) =
     ((bol \<and> match_prefix r (c # cs)) \<or> rx_test_bol (c = CHR 0x0A \<or> c = CHR 0x0D) r cs)"

definition upper :: "char \<Rightarrow> char" where
  "upper c = (let n = (of_char c :: nat) in if 97 \<le> n \<and> n \<le> 122 then char_of (n - 32) else c)"

text \<open>A literal under the \<^verbatim>\<open>i\<close> flag (the literals are lower case).\<close>

definition lit :: "string \<Rightarrow> rx" where
  "lit s = foldr (\<lambda>c r. Seq (Cls [c, upper c]) r) s Eps"

definition words :: "string list \<Rightarrow> rx" where
  "words ws = foldr (\<lambda>w r. Alt (lit w) r) ws Zero"

definition seqs :: "rx list \<Rightarrow> rx" where
  "seqs rs = foldr Seq rs Eps"

definition ws :: rx where
  "ws = Cls [CHR 0x09, CHR 0x0A, CHR 0x0B, CHR 0x0C, CHR 0x0D, CHR 0x20, CHR 0xA0]"

definition ws_star :: rx where
  "ws_star = Star ws"

definition ws_plus :: rx where
  "ws_plus = Seq ws (Star ws)"

definition opt :: "rx \<Rightarrow> rx" where
  "opt r = Alt r Eps"

definition INJECTION_PATTERNS :: "((string \<Rightarrow> bool) \<times> string) list" where
  "INJECTION_PATTERNS =
    [(rx_test_bol True (seqs [words [''system'', ''assistant'', ''user''], ws_star, lit '':'']),
      ''role label''),
     (rx_test (seqs [lit ''<'', ws_star, opt (lit ''/''), ws_star,
        words [''system'', ''instruction'', ''admin'', ''prompt'', ''tool_call'', ''function_call'']]),
      ''XML-like directive tag''),
     (rx_test (seqs [lit ''ignore'', ws_plus, opt (Seq (lit ''all'') ws_plus),
        words [''previous'', ''prior'', ''above''], ws_plus,
        words [''instructions'', ''prompts'', ''rules'']]),
      ''override directive''),
     (rx_test (seqs [lit ''forget'', ws_plus, words [''your'', ''all'', ''the''], ws_plus,
        words [''rules'', ''instructions'', ''training'', ''guidelines'']]),
      ''forget directive''),
     (rx_test (seqs [lit ''you'', ws_plus, lit ''are'', ws_plus, lit ''now'', ws_plus,
        opt (Seq (lit ''in'') ws_plus),
        words [''admin'', ''root'', ''debug'', ''developer'', ''unrestricted'', ''jailbreak'']]),
      ''mode switching''),
     (rx_test (seqs [words [''execute'', ''call'', ''invoke'', ''run''], ws_plus, lit ''the'', ws_plus,
        words [''tool'', ''function'', ''command'']]),
      ''tool invocation directive'')]"

definition checkInjection :: "string \<Rightarrow> string list" where
  "checkInjection text =
     (if length text < 10 then []
      else map snd (filter (\<lambda>(pattern, desc). pattern text) INJECTION_PATTERNS))"

subsection \<open>Output tagging\<close>

definition wrap :: "string \<Rightarrow> string" where
  "wrap text = ''[USER_DATA]'' @ text @ ''[/USER_DATA]''"

text \<open>\<^verbatim>\<open>tagUserText\<close>: \<^verbatim>\<open>null\<close> for a null or undefined text, the text between the two markers otherwise.\<close>

definition tagUserText :: "json \<Rightarrow> json" where
  "tagUserText text = (if nullish text then JNull else JStr (wrap (js_String text)))"

definition USER_TEXT_FIELDS :: "string list" where
  "USER_TEXT_FIELDS = [''title'', ''content'', ''deck_name'', ''owner_name'', ''milestone_name'']"

text \<open>One round of the loop over \<open>USER_TEXT_FIELDS\<close>, on \<open>(out, warnings)\<close>.\<close>

definition sanitize_field :: "string \<Rightarrow> obj \<times> string list \<Rightarrow> obj \<times> string list" where
  "sanitize_field field ow =
     (case map_of (fst ow) field of
        Some (JStr s) \<Rightarrow>
          (AList.update field (tagUserText (JStr s)) (fst ow),
           snd ow @ map (\<lambda>desc. field @ '': '' @ desc) (checkInjection s))
      | _ \<Rightarrow> ow)"

text \<open>The callbacks of the three \<^verbatim>\<open>map\<close> calls: the new element, and the warnings it pushes.\<close>

definition tag_sub_card :: "json \<Rightarrow> json" where
  "tag_sub_card sc =
     (let tagged = spread sc in
      case lookup tagged ''title'' of
        JStr s \<Rightarrow> JObj (AList.update ''title'' (tagUserText (JStr s)) tagged)
      | _ \<Rightarrow> JObj tagged)"

definition warn_sub_card :: "json \<Rightarrow> string list" where
  "warn_sub_card sc =
     (case lookup (spread sc) ''title'' of
        JStr s \<Rightarrow> map (\<lambda>desc. ''sub_card.title: '' @ desc) (checkInjection s)
      | _ \<Rightarrow> [])"

definition tag_message :: "json \<Rightarrow> json" where
  "tag_message msg =
     (let m = spread msg in
      case lookup m ''content'' of
        JStr s \<Rightarrow> JObj (AList.update ''content'' (tagUserText (JStr s)) m)
      | _ \<Rightarrow> JObj m)"

definition warn_message :: "json \<Rightarrow> string list" where
  "warn_message msg =
     (case lookup (spread msg) ''content'' of
        JStr s \<Rightarrow> map (\<lambda>desc. ''conversation.message: '' @ desc) (checkInjection s)
      | _ \<Rightarrow> [])"

definition tag_conversation :: "json \<Rightarrow> json" where
  "tag_conversation conv =
     (let tagged = spread conv in
      case lookup tagged ''messages'' of
        JArr msgs \<Rightarrow> JObj (AList.update ''messages'' (JArr (map tag_message msgs)) tagged)
      | _ \<Rightarrow> JObj tagged)"

definition warn_conversation :: "json \<Rightarrow> string list" where
  "warn_conversation conv =
     (case lookup (spread conv) ''messages'' of
        JArr msgs \<Rightarrow> concat (map warn_message msgs)
      | _ \<Rightarrow> [])"

definition sanitizeCard :: "obj \<Rightarrow> obj" where
  "sanitizeCard crd =
     (let ow1 = fold sanitize_field USER_TEXT_FIELDS (crd, []);
          ow2 = (case lookup (fst ow1) ''sub_cards'' of
                   JArr scs \<Rightarrow>
                     (AList.update ''sub_cards'' (JArr (map tag_sub_card scs)) (fst ow1),
                      snd ow1 @ concat (map warn_sub_card scs))
                 | _ \<Rightarrow> ow1);
          ow3 = (case lookup (fst ow2) ''conversations'' of
                   JArr convs \<Rightarrow>
                     (AList.update ''conversations'' (JArr (map tag_conversation convs)) (fst ow2),
                      snd ow2 @ concat (map warn_conversation convs))
                 | _ \<Rightarrow> ow2)
      in if snd ow3 \<noteq> []
         then AList.update ''_safety_warnings'' (JArr (map JStr (snd ow3))) (fst ow3)
         else fst ow3)"

subsection \<open>Input validation\<close>

definition validateUuid :: "string \<Rightarrow> string \<Rightarrow> error + string" where
  "validateUuid val field =
     (if length val \<noteq> 36 \<or> length (filter (\<lambda>c. c = CHR ''-'') val) \<noteq> 4
      then Inl (CliError (''[ERROR] '' @ field @ '' must be a full 36-char UUID, got: '' @ json_quote val))
      else Inr val)"

text \<open>\<^verbatim>\<open>values.map(validateUuid)\<close>: the first invalid entry throws.\<close>

fun validateUuidList :: "string list \<Rightarrow> string \<Rightarrow> error + string list" where
  "validateUuidList [] field = Inr []"
| "validateUuidList (v # vs) field =
     (case validateUuid v field of
        Inl e \<Rightarrow> Inl e
      | Inr v' \<Rightarrow> (case validateUuidList vs field of Inl e \<Rightarrow> Inl e | Inr vs' \<Rightarrow> Inr (v' # vs')))"

section \<open>Response contract (contract.ts)\<close>

definition CONTRACT_SCHEMA_VERSION :: string where
  "CONTRACT_SCHEMA_VERSION = ''1.0''"

definition contractError :: "string \<Rightarrow> string \<Rightarrow> obj" where
  "contractError msg errorType =
     [(''ok'', JBool False),
      (''schema_version'', JStr CONTRACT_SCHEMA_VERSION),
      (''type'', JStr errorType),
      (''error'', JStr msg),
      (''error_detail'', JObj [(''type'', JStr errorType), (''message'', JStr msg)])]"

definition ensureContractDict :: "obj \<Rightarrow> obj" where
  "ensureContractDict payload =
     (let out = nullish_assign ''schema_version'' (JStr CONTRACT_SCHEMA_VERSION) payload in
      if lookup out ''ok'' = JBool False then
        (let errorType = js_String (coalesce (lookup out ''type'') (JStr ''error''));
             errorMessage = (case lookup out ''error'' of JStr s \<Rightarrow> s | e \<Rightarrow> js_String e);
             out2 = (case lookup out ''error'' of
                       JStr s \<Rightarrow> out
                     | e \<Rightarrow> AList.update ''error'' (JStr errorMessage) out)
         in nullish_assign ''error_detail''
              (JObj [(''type'', JStr errorType), (''message'', JStr errorMessage)]) out2)
      else nullish_assign ''ok'' (JBool True) out)"

section \<open>Platform functions\<close>

text \<open>
  What the program takes from the JavaScript runtime and the clock:
  \<^verbatim>\<open>String.prototype.localeCompare\<close>, \<^verbatim>\<open>toLowerCase\<close>, the time value of
  \<^verbatim>\<open>new Date(ts)\<close> (\<open>None\<close> for an invalid date), and the time value of
  \<^verbatim>\<open>new Date()\<close> set back by a number of days.
\<close>

record runtime =
  localeCompare :: "string \<Rightarrow> string \<Rightarrow> int"
  toLowerCase :: "string \<Rightarrow> string"
  parseDate :: "string \<Rightarrow> int option"
  daysAgo :: "int \<Rightarrow> int option"

text \<open>
  \<^verbatim>\<open>Array.prototype.sort(cmp)\<close> is stable; for a consistent comparator its result is
  the one a stable insertion sort gives.
\<close>

fun insert_by :: "('a \<Rightarrow> 'a \<Rightarrow> int) \<Rightarrow> 'a \<Rightarrow> 'a list \<Rightarrow> 'a list" where
  "insert_by cmp x [] = [x]"
| "insert_by cmp x (y # ys) = (if cmp x y \<le> 0 then x # y # ys else y # insert_by cmp x ys)"

definition js_sort :: "('a \<Rightarrow> 'a \<Rightarrow> int) \<Rightarrow> 'a list \<Rightarrow> 'a list" where
  "js_sort cmp xs = foldr (insert_by cmp) xs []"

text \<open>\<^verbatim>\<open>s.includes(t)\<close>\<close>

fun js_includes :: "string \<Rightarrow> string \<Rightarrow> bool" where
  "js_includes [] t = (t = [])"
| "js_includes (c # cs) t = (take (length t) (c # cs) = t \<or> js_includes cs t)"

section \<open>The HTTP request (api.ts)\<close>

text \<open>
  \<^verbatim>\<open>config.httpTimeout\<close> is in milliseconds, a whole number of seconds (config.ts);
  \<^verbatim>\<open>config.httpRetryBase\<close> is in seconds.
\<close>

record http_config =
  httpTimeout :: int
  httpMaxRetries :: int
  httpRetryBase :: rat
  httpMaxResponseBytes :: int

text \<open>
  What one \<^verbatim>\<open>fetch\<close> gives: a response (status, status text, the
  \<^verbatim>\<open>Retry-After\<close> header, and the body that \<^verbatim>\<open>text()\<close> resolves to, or the
  message of the error it rejects with), an abort by the timer, or any other rejection
  with its message.
\<close>

record response =
  status :: nat
  statusText :: string
  retryAfter :: "string option"
  body :: "string + string"

datatype fetched = Responded response | Aborted | Failed string

text \<open>What a request does, in order: the attempts, by index, and the sleeps, in milliseconds.\<close>

datatype event = Fetch nat | Sleep rat

definition RETRYABLE_HTTP_CODES :: "nat list" where
  "RETRYABLE_HTTP_CODES = [429, 502, 503, 504]"

text \<open>\<^verbatim>\<open>response.ok\<close>\<close>

definition ok :: "response \<Rightarrow> bool" where
  "ok r = (200 \<le> status r \<and> status r \<le> 299)"

text \<open>
  The \<^verbatim>\<open>for\<close> loop of \<^verbatim>\<open>httpRequest\<close>, from attempt \<open>attempt\<close> on.
  \<open>fetch i\<close> is what the \<open>i\<close>-th call of \<^verbatim>\<open>fetch\<close> gives, \<open>parse\<close> is
  \<^verbatim>\<open>JSON.parse\<close> (\<open>None\<close> when it throws).
\<close>

function request_loop ::
  "http_config \<Rightarrow> (nat \<Rightarrow> fetched) \<Rightarrow> (string \<Rightarrow> json option) \<Rightarrow> bool \<Rightarrow> int \<Rightarrow> int
     \<Rightarrow> nat \<Rightarrow> event list \<Rightarrow> (error + json) \<times> event list" where
  "request_loop cfg fetch parse idempotent maxAttempts timeout attempt tr =
     (if \<not> int attempt < maxAttempts then
        (Inl (CliError ''[ERROR] Request failed after all retries.''), tr)
      else
        (let backoff = httpRetryBase cfg * 2 ^ attempt * 1000 in
         case fetch attempt of
           Responded r \<Rightarrow>
             if \<not> ok r then
               (let errorBody = (case body r of Inl m \<Rightarrow> [] | Inr t \<Rightarrow> t);
                    retryable = (status r \<in> set RETRYABLE_HTTP_CODES);
                    canRetry = (idempotent \<and> int attempt < maxAttempts - 1 \<and> retryable)
                in if canRetry then
                     (let retryAfter =
                            (case parseInt10 (case retryAfter r of None \<Rightarrow> [] | Some h \<Rightarrow> h) of
                               None \<Rightarrow> httpRetryBase cfg * 2 ^ attempt
                             | Some n \<Rightarrow> if n = 0 then httpRetryBase cfg * 2 ^ attempt else of_int n)
                      in request_loop cfg fetch parse idempotent maxAttempts timeout (Suc attempt)
                           (tr @ [Fetch attempt, Sleep (retryAfter * 1000)]))
                   else (Inl (HTTPError (status r) (statusText r) errorBody), tr @ [Fetch attempt]))
             else
               (case body r of
                  Inr raw \<Rightarrow>
                    if int (length raw) > httpMaxResponseBytes cfg then
                      (Inl (CliError (''[ERROR] Response too large from Codecks API (>'' @
                              show_int (httpMaxResponseBytes cfg) @ '' bytes).'')),
                       tr @ [Fetch attempt])
                    else
                      (case parse raw of
                         Some j \<Rightarrow> (Inr j, tr @ [Fetch attempt])
                       | None \<Rightarrow>
                           (Inl (CliError ''[ERROR] Unexpected response from Codecks API (not valid JSON).''),
                            tr @ [Fetch attempt]))
                | Inl m \<Rightarrow>
                    if idempotent \<and> int attempt < maxAttempts - 1 then
                      request_loop cfg fetch parse idempotent maxAttempts timeout (Suc attempt)
                        (tr @ [Fetch attempt, Sleep backoff])
                    else (Inl (CliError (''[ERROR] Connection failed: '' @ m)), tr @ [Fetch attempt]))
         | Aborted \<Rightarrow>
             if idempotent \<and> int attempt < maxAttempts - 1 then
               request_loop cfg fetch parse idempotent maxAttempts timeout (Suc attempt)
                 (tr @ [Fetch attempt, Sleep backoff])
             else
               (Inl (CliError (''[ERROR] Request timed out after '' @ show_int (timeout div 1000) @
                               '' seconds. Is Codecks API reachable?'')),
                tr @ [Fetch attempt])
         | Failed m \<Rightarrow>
             if idempotent \<and> int attempt < maxAttempts - 1 then
               request_loop cfg fetch parse idempotent maxAttempts timeout (Suc attempt)
                 (tr @ [Fetch attempt, Sleep backoff])
             else (Inl (CliError (''[ERROR] Connection failed: '' @ m)), tr @ [Fetch attempt])))"
  by pat_completeness auto
termination
  by (relation "measure (\<lambda>(cfg, fetch, parse, idempotent, maxAttempts, timeout, attempt, tr).
        nat (maxAttempts - int attempt))") auto

definition httpRequest ::
  "http_config \<Rightarrow> (nat \<Rightarrow> fetched) \<Rightarrow> (string \<Rightarrow> json option) \<Rightarrow> bool
     \<Rightarrow> (error + json) \<times> event list" where
  "httpRequest cfg fetch parse idempotent =
     (let maxAttempts = 1 + max 0 (if idempotent then httpMaxRetries cfg else 0);
          timeout = max 1000 (httpTimeout cfg)
      in request_loop cfg fetch parse idempotent maxAttempts timeout 0 [])"

text \<open>The attempts of a trace: the indices of its \<^verbatim>\<open>fetch\<close> calls, in order.\<close>

fun attempts :: "event list \<Rightarrow> nat list" where
  "attempts [] = []"
| "attempts (Fetch i # es) = i # attempts es"
| "attempts (Sleep d # es) = attempts es"

text \<open>
  The outcomes of an attempt after which the loop can go on: a response that is not ok
  with a status in \<open>RETRYABLE_HTTP_CODES\<close>, an ok response whose body cannot be read
  (the generic \<^verbatim>\<open>catch\<close> branch), an abort by the timer, any other rejection.
\<close>

definition retry_cause :: "fetched \<Rightarrow> bool" where
  "retry_cause x = (case x of
      Responded r \<Rightarrow> (\<not> ok r \<and> status r \<in> set RETRYABLE_HTTP_CODES) \<or> (ok r \<and> isl (body r))
    | Aborted \<Rightarrow> True
    | Failed m \<Rightarrow> True)"

section \<open>The API layer as the client sees it (api.ts)\<close>

text \<open>
  A remote call is a query, a dispatch to a path, or a report, with its JSON body.
  The transport gives what \<^verbatim>\<open>httpRequest\<close> returns or throws for a call, which may
  depend on the calls made before. Every function below takes the trace of the calls
  made so far and returns it extended.
\<close>

datatype call = Query json | Dispatch string json | Report json

type_synonym transport = "call list \<Rightarrow> call \<Rightarrow> error + json"

record config =
  userId :: string
  reportToken :: string

definition expectObject :: "json \<Rightarrow> string \<Rightarrow> error + obj" where
  "expectObject result operation =
     (case result of
        JObj kvs \<Rightarrow> Inr kvs
      | _ \<Rightarrow> Inl (CliError (''[ERROR] Unexpected '' @ operation @
                 '' response shape: expected JSON object.'')))"

definition sessionRequest :: "transport \<Rightarrow> call \<Rightarrow> call list \<Rightarrow> (error + obj) \<times> call list" where
  "sessionRequest tp c tr =
     (case tp tr c of
        Inr result \<Rightarrow> (expectObject result ''session'', tr @ [c])
      | Inl (HTTPError code reason errorBody) \<Rightarrow>
          (if code = 401 \<or> code = 403 then
             Inl (SetupError (''[TOKEN_EXPIRED] The Codecks session token has expired. '' @
                              ''Please provide a fresh '' @ [CHR 0x27] @ ''at'' @ [CHR 0x27] @
                              '' cookie from browser DevTools.''))
           else if code = 429 then
             Inl (CliError ''[ERROR] Rate limit reached (Codecks allows ~40 req/5s). Wait and retry.'')
           else Inl (CliError (''[ERROR] HTTP '' @ show_nat code @ '': '' @ reason)),
           tr @ [c])
      | Inl e \<Rightarrow> (Inl e, tr @ [c]))"

definition reportRequest ::
  "config \<Rightarrow> transport \<Rightarrow> string \<Rightarrow> string option \<Rightarrow> string option \<Rightarrow> call list
     \<Rightarrow> (error + obj) \<times> call list" where
  "reportRequest cfg tp content severity email tr =
     (if reportToken cfg = [] then
        (Inl (CliError ''[ERROR] CODECKS_REPORT_TOKEN not set. Generate one via the CLI.''), tr)
      else
        (let p1 = [(''content'', JStr content)];
             p2 = (case severity of
                     Some s \<Rightarrow> if s \<noteq> [] then AList.update ''severity'' (JStr s) p1 else p1
                   | None \<Rightarrow> p1);
             p3 = (case email of
                     Some s \<Rightarrow> if s \<noteq> [] then AList.update ''userEmail'' (JStr s) p2 else p2
                   | None \<Rightarrow> p2);
             c = Report (JObj p3)
         in case tp tr c of
              Inr result \<Rightarrow> (expectObject result ''report'', tr @ [c])
            | Inl (HTTPError code reason errorBody) \<Rightarrow>
                (if code = 401 then
                   Inl (CliError ''[ERROR] Report token is invalid or disabled. Generate a new one.'')
                 else Inl (HTTPError code reason errorBody),
                 tr @ [c])
            | Inl e \<Rightarrow> (Inl e, tr @ [c])))"

definition query :: "transport \<Rightarrow> json \<Rightarrow> call list \<Rightarrow> (error + obj) \<times> call list" where
  "query tp q tr =
     (case sessionRequest tp (Query q) tr of
        (Inl e, tr') \<Rightarrow> (Inl e, tr')
      | (Inr result, tr') \<Rightarrow> (Inr (AList.delete ''_root'' result), tr'))"

definition dispatch :: "transport \<Rightarrow> string \<Rightarrow> json \<Rightarrow> call list \<Rightarrow> (error + obj) \<times> call list" where
  "dispatch tp path data tr = sessionRequest tp (Dispatch path data) tr"

text \<open>A call that changes the remote state.\<close>

fun mutating :: "call \<Rightarrow> bool" where
  "mutating (Query q) = False"
| "mutating (Dispatch path data) = True"
| "mutating (Report payload) = True"

section \<open>The client (client.ts)\<close>

subsection \<open>Helpers\<close>

definition getField :: "json \<Rightarrow> string list \<Rightarrow> json" where
  "getField ob keys =
     (case List.find (has_prop ob) keys of Some k \<Rightarrow> get_prop ob k | None \<Rightarrow> JUndefined)"

definition parseIsoTimestamp :: "runtime \<Rightarrow> json \<Rightarrow> int option" where
  "parseIsoTimestamp rt ts = (case ts of JStr s \<Rightarrow> parseDate rt s | _ \<Rightarrow> None)"

definition filteredKey :: "string \<Rightarrow> obj \<Rightarrow> string" where
  "filteredKey entity filters =
     entity @ ''('' @ (case JSON_stringify (JObj filters) of Some t \<Rightarrow> t | None \<Rightarrow> ''undefined'') @ '')''"

definition parseMultiValue :: "string \<Rightarrow> string list \<Rightarrow> string \<Rightarrow> error + string list" where
  "parseMultiValue val allowed label =
     (let vals = map trim (split CHR '','' val) in
      case List.find (\<lambda>v. v \<notin> set allowed) vals of
        Some v \<Rightarrow>
          Inl (CliError (''[ERROR] Invalid '' @ label @ '': '' @ [CHR 0x27] @ v @ [CHR 0x27] @
                         ''. Valid: '' @ intercalate '', '' allowed))
      | None \<Rightarrow> Inr vals)"

definition VALID_STATUSES :: "string list" where
  "VALID_STATUSES =
     [''not_started'', ''started'', ''done'', ''blocked'', ''in_review'', ''in_progress'']"

definition extractEntityMap :: "obj \<Rightarrow> string \<Rightarrow> json list" where
  "extractEntityMap result key =
     (case lookup result key of
        JObj entityMap \<Rightarrow> filter is_object (map snd entityMap)
      | _ \<Rightarrow> [])"

definition extractCards :: "obj \<Rightarrow> json list" where
  "extractCards result = extractEntityMap result ''card''"

text \<open>\<^verbatim>\<open>queryKey.replace(/s$/, "").replace(/ie$/, "y")\<close>\<close>

definition singular :: "string \<Rightarrow> string" where
  "singular k =
     (let k1 = (if k \<noteq> [] \<and> last k = CHR ''s'' then butlast k else k)
      in if 2 \<le> length k1 \<and> drop (length k1 - 2) k1 = ''ie''
         then take (length k1 - 2) k1 @ ''y'' else k1)"

text \<open>
  \<^verbatim>\<open>extractEntityMap(result, singularKey) || extractEntityMap(result, queryKey) || []\<close>:
  an array is truthy, so the first operand is the value.
\<close>

definition extractList :: "obj \<Rightarrow> string \<Rightarrow> json list" where
  "extractList result queryKey = extractEntityMap result (singular queryKey)"

fun computeStats :: "json list \<Rightarrow> obj \<Rightarrow> obj" where
  "computeStats [] stats = stats"
| "computeStats (c # cs) stats =
     (let st = js_String (coalesce (get_prop c ''status'') (JStr ''unknown''));
          n = (case lookup stats st of JNum k \<Rightarrow> k | _ \<Rightarrow> 0)
      in computeStats cs (AList.update st (JNum (n + 1)) stats))"

subsection \<open>Decks\<close>

definition decks_query :: json where
  "decks_query =
     JObj [(''_root'', JArr [JObj [(''account'',
        JArr [JObj [(''decks'', JArr [JStr ''title'', JStr ''id'', JStr ''projectId''])]])]])]"

definition listDecks :: "transport \<Rightarrow> call list \<Rightarrow> (error + obj) \<times> call list" where
  "listDecks tp tr =
     (case query tp decks_query tr of
        (Inl e, tr') \<Rightarrow> (Inl e, tr')
      | (Inr result, tr') \<Rightarrow> (Inr [(''decks'', JArr (extractList result ''decks''))], tr'))"

subsection \<open>Cards\<close>

text \<open>The options \<^verbatim>\<open>listCards\<close> reads; it reads no other.\<close>

record list_options =
  lo_deck :: "string option"
  lo_status :: "string option"
  lo_search :: "string option"
  lo_owner :: "string option"
  lo_sort :: "string option"
  lo_staleDays :: "int option"
  lo_archived :: "bool option"
  lo_includeStats :: "bool option"

definition cardFields :: "list_options \<Rightarrow> json list" where
  "cardFields opts =
     [JStr ''title'', JStr ''status'', JStr ''priority'', JStr ''deckId'', JStr ''effort'',
      JStr ''createdAt'', JStr ''milestoneId'', JStr ''masterTags'', JStr ''lastUpdatedAt'',
      JStr ''isDoc'', JStr ''childCardInfo'',
      JObj [(''assignee'', JArr [JStr ''name'', JStr ''id''])]]
     @ (if given (lo_search opts) then [JStr ''content''] else [])"

text \<open>The client-side filters, in the order of the source.\<close>

definition filter_status :: "string list option \<Rightarrow> json list \<Rightarrow> json list" where
  "filter_status clientStatusFilter cards =
     (case clientStatusFilter of
        None \<Rightarrow> cards
      | Some allowed \<Rightarrow>
          filter (\<lambda>c. js_String (coalesce (get_prop c ''status'') (JStr [])) \<in> set allowed) cards)"

definition filter_search :: "runtime \<Rightarrow> string option \<Rightarrow> json list \<Rightarrow> json list" where
  "filter_search rt search cards =
     (case search of
        None \<Rightarrow> cards
      | Some s \<Rightarrow>
          if s = [] then cards
          else (let term = toLowerCase rt s in
                filter (\<lambda>c.
                  js_includes (toLowerCase rt (js_String (coalesce (get_prop c ''title'') (JStr [])))) term \<or>
                  js_includes (toLowerCase rt (js_String (coalesce (get_prop c ''content'') (JStr [])))) term)
                  cards))"

definition filter_owner :: "runtime \<Rightarrow> string option \<Rightarrow> json list \<Rightarrow> json list" where
  "filter_owner rt owner cards =
     (case owner of
        None \<Rightarrow> cards
      | Some ow \<Rightarrow>
          if ow = [] then cards
          else if ow = ''none'' then filter (\<lambda>c. \<not> truthy (get_prop c ''assignee'')) cards
          else (let name = toLowerCase rt ow in
                filter (\<lambda>c.
                  truthy (get_prop c ''assignee'') \<and>
                  toLowerCase rt (js_String (coalesce (get_prop (get_prop c ''assignee'') ''name'') (JStr [])))
                    = name) cards))"

definition filter_stale :: "runtime \<Rightarrow> int option \<Rightarrow> json list \<Rightarrow> json list" where
  "filter_stale rt staleDays cards =
     (case staleDays of
        None \<Rightarrow> cards
      | Some n \<Rightarrow>
          if n = 0 then cards
          else filter (\<lambda>c.
                 case parseIsoTimestamp rt (get_prop c ''lastUpdatedAt'') of
                   None \<Rightarrow> False
                 | Some updated \<Rightarrow> (case daysAgo rt n of None \<Rightarrow> False | Some cutoff \<Rightarrow> updated < cutoff))
                 cards)"

definition sort_key :: "string \<Rightarrow> json \<Rightarrow> string" where
  "sort_key sortField c = js_String (coalesce (getField c [sortField]) (JStr []))"

definition sort_compare :: "runtime \<Rightarrow> string \<Rightarrow> json \<Rightarrow> json \<Rightarrow> int" where
  "sort_compare rt sortField a b =
     (let reverse = (sortField = ''updated'' \<or> sortField = ''created'');
          va = sort_key sortField a;
          vb = sort_key sortField b
      in if reverse then localeCompare rt vb va else localeCompare rt va vb)"

definition sort_cards :: "runtime \<Rightarrow> string option \<Rightarrow> json list \<Rightarrow> json list" where
  "sort_cards rt srt cards =
     (case srt of
        None \<Rightarrow> cards
      | Some sortField \<Rightarrow>
          if sortField = [] then cards else js_sort (sort_compare rt sortField) cards)"

text \<open>
  "Parse and apply status filter": one value goes into the query, several are kept for
  the client-side filter. The result is the query filter and \<open>clientStatusFilter\<close>.
\<close>

definition status_filter :: "list_options \<Rightarrow> obj \<Rightarrow> error + (obj \<times> string list option)" where
  "status_filter opts cardQuery =
     (case lo_status opts of
        None \<Rightarrow> Inr (cardQuery, None)
      | Some st \<Rightarrow>
          if st = [] then Inr (cardQuery, None)
          else (case parseMultiValue st VALID_STATUSES ''status'' of
                  Inl e \<Rightarrow> Inl e
                | Inr statuses \<Rightarrow>
                    (case statuses of
                       [s] \<Rightarrow> Inr (AList.update ''status'' (JStr s) cardQuery, None)
                     | _ \<Rightarrow> Inr (cardQuery, Some statuses))))"

text \<open>"Resolve deck filter to ID"\<close>

definition deck_filter ::
  "runtime \<Rightarrow> transport \<Rightarrow> list_options \<Rightarrow> obj \<Rightarrow> call list \<Rightarrow> (error + obj) \<times> call list" where
  "deck_filter rt tp opts cardQuery tr =
     (case lo_deck opts of
        None \<Rightarrow> (Inr cardQuery, tr)
      | Some dk \<Rightarrow>
          if dk = [] then (Inr cardQuery, tr)
          else (case listDecks tp tr of
                  (Inl e, tr1) \<Rightarrow> (Inl e, tr1)
                | (Inr decksResult, tr1) \<Rightarrow>
                    (case coalesce (lookup decksResult ''decks'') (JArr []) of
                       JArr decks \<Rightarrow>
                         (case List.find (\<lambda>d.
                                 toLowerCase rt (js_String (coalesce (get_prop d ''title'') (JStr [])))
                                   = toLowerCase rt dk) decks of
                            Some d \<Rightarrow> (Inr (AList.update ''deckId'' (get_prop d ''id'') cardQuery), tr1)
                          | None \<Rightarrow>
                              (Inl (CliError (''[ERROR] Deck '' @ [CHR 0x27] @ dk @ [CHR 0x27] @
                                              '' not found.'')), tr1))
                     | _ \<Rightarrow> (Inl (TypeError ''decks.find is not a function''), tr1))))"

definition cards_query :: "list_options \<Rightarrow> obj \<Rightarrow> json" where
  "cards_query opts cardQuery =
     JObj [(''_root'', JArr [JObj [(''account'',
        JArr [JObj [(filteredKey ''cards'' cardQuery, JArr (cardFields opts))]])]])]"

definition listCards ::
  "runtime \<Rightarrow> transport \<Rightarrow> list_options \<Rightarrow> call list \<Rightarrow> (error + obj) \<times> call list" where
  "listCards rt tp opts tr =
     (case status_filter opts
             [(''visibility'', JStr (if flag (lo_archived opts) then ''archived'' else ''default''))] of
        Inl e \<Rightarrow> (Inl e, tr)
      | Inr (cardQuery1, clientStatusFilter) \<Rightarrow>
          (case deck_filter rt tp opts cardQuery1 tr of
             (Inl e, tr1) \<Rightarrow> (Inl e, tr1)
           | (Inr cardQuery, tr1) \<Rightarrow>
               (case query tp (cards_query opts cardQuery) tr1 of
                  (Inl e, tr2) \<Rightarrow> (Inl e, tr2)
                | (Inr result, tr2) \<Rightarrow>
                    (let cards0 = extractCards result;
                         cards1 = filter_status clientStatusFilter cards0;
                         cards2 = filter_search rt (lo_search opts) cards1;
                         cards3 = filter_owner rt (lo_owner opts) cards2;
                         cards4 = filter_stale rt (lo_staleDays opts) cards3;
                         cards = sort_cards rt (lo_sort opts) cards4;
                         stats = (if flag (lo_includeStats opts) then JObj (computeStats cards []) else JNull)
                     in (Inr [(''cards'', JArr cards), (''stats'', stats),
                              (''count'', JNum (int (length cards)))], tr2)))))"

subsection \<open>Mutations\<close>

text \<open>The options \<^verbatim>\<open>createCard\<close> reads. The title is interpolated into a template, so any value serves.\<close>

record create_options =
  co_title :: json
  co_content :: "string option"
  co_severity :: "string option"

definition createCard ::
  "config \<Rightarrow> transport \<Rightarrow> create_options \<Rightarrow> call list \<Rightarrow> (error + obj) \<times> call list" where
  "createCard cfg tp opts tr =
     (let fullContent = ''# '' @ js_String (co_title opts) @
            (case co_content opts of
               None \<Rightarrow> []
             | Some c \<Rightarrow> if c \<noteq> [] then [CHR 0x0A, CHR 0x0A] @ c else [])
      in case reportRequest cfg tp fullContent (co_severity opts) None tr of
           (Inl e, tr') \<Rightarrow> (Inl e, tr')
         | (Inr result, tr') \<Rightarrow>
             (let cardId = js_String (coalesce (lookup result ''id'')
                              (coalesce (lookup result ''cardId'') (JStr ''unknown'')))
              in (Inr [(''ok'', JBool True), (''card_id'', JStr cardId), (''title'', co_title opts)], tr')))"

record update_options =
  cardIds :: "string list"
  uo_status :: "string option"
  uo_priority :: "string option"
  uo_effort :: "string option"
  uo_title :: "string option"
  uo_content :: "string option"
  uo_milestone :: "string option"
  uo_owner :: "string option"
  continueOnError :: "bool option"

text \<open>A field that is set when the option is given, to \<^verbatim>\<open>null\<close> for the string "null".\<close>

definition set_nullable :: "string \<Rightarrow> string option \<Rightarrow> (string \<Rightarrow> json) \<Rightarrow> obj \<Rightarrow> obj" where
  "set_nullable k v conv payload =
     (case v of
        None \<Rightarrow> payload
      | Some s \<Rightarrow>
          if s = [] then payload
          else AList.update k (if s = ''null'' then JNull else conv s) payload)"

definition update_payload :: "update_options \<Rightarrow> string \<Rightarrow> obj" where
  "update_payload opts cardId =
     (let p0 = [(''id'', JStr cardId)];
          p1 = (case uo_status opts of
                  None \<Rightarrow> p0
                | Some s \<Rightarrow> if s \<noteq> [] then AList.update ''status'' (JStr s) p0 else p0);
          p2 = set_nullable ''priority'' (uo_priority opts) JStr p1;
          p3 = set_nullable ''effort'' (uo_effort opts)
                 (\<lambda>s. case parseInt10 s of None \<Rightarrow> JNaN | Some n \<Rightarrow> JNum n) p2;
          p4 = (case uo_title opts of
                  None \<Rightarrow> p3
                | Some s \<Rightarrow> if s \<noteq> [] then AList.update ''title'' (JStr s) p3 else p3);
          p5 = (case uo_content opts of
                  None \<Rightarrow> p4
                | Some s \<Rightarrow> AList.update ''content'' (JStr s) p4);
          p6 = set_nullable ''milestoneId'' (uo_milestone opts) JStr p5
      in set_nullable ''assigneeId'' (uo_owner opts) JStr p6)"

text \<open>The loop of \<^verbatim>\<open>updateCards\<close>, on the ids left, \<open>results\<close>, \<open>updated\<close> and the trace.\<close>

fun update_loop ::
  "transport \<Rightarrow> update_options \<Rightarrow> string list \<Rightarrow> json list \<Rightarrow> nat \<Rightarrow> call list
     \<Rightarrow> (json list \<times> nat) \<times> call list" where
  "update_loop tp opts [] results updated tr = ((results, updated), tr)"
| "update_loop tp opts (cardId # ids) results updated tr =
     (case dispatch tp ''cards/update'' (JObj (update_payload opts cardId)) tr of
        (Inr r, tr') \<Rightarrow>
          update_loop tp opts ids
            (results @ [JObj [(''card_id'', JStr cardId), (''ok'', JBool True), (''result'', JObj r)]])
            (updated + 1) tr'
      | (Inl err, tr') \<Rightarrow>
          (let results' = results @
                 [JObj [(''card_id'', JStr cardId), (''ok'', JBool False), (''error'', JStr (message err))]]
           in if \<not> flag (continueOnError opts) then ((results', updated), tr')
              else update_loop tp opts ids results' updated tr'))"

definition updateCards :: "transport \<Rightarrow> update_options \<Rightarrow> call list \<Rightarrow> obj \<times> call list" where
  "updateCards tp opts tr =
     (case update_loop tp opts (cardIds opts) [] 0 tr of
        ((results, updated), tr') \<Rightarrow>
          ([(''ok'', JBool (updated > 0)), (''updated'', JNum (int updated)), (''results'', JArr results)],
           tr'))"

text \<open>The number of entries of \<open>results\<close> with \<open>ok: true\<close>.\<close>

definition succeeded :: "json list \<Rightarrow> nat" where
  "succeeded rs = length (filter (\<lambda>r. get_prop r ''ok'' = JBool True) rs)"

definition deleteCard :: "transport \<Rightarrow> string \<Rightarrow> call list \<Rightarrow> (error + obj) \<times> call list" where
  "deleteCard tp cardId tr =
     (case dispatch tp ''cards/update''
             (JObj [(''id'', JStr cardId), (''visibility'', JStr ''archived'')]) tr of
        (Inl e, tr1) \<Rightarrow> (Inl e, tr1)
      | (Inr archived, tr1) \<Rightarrow>
          (case dispatch tp ''cards/bulkUpdate''
                  (JObj [(''ids'', JArr [JStr cardId]), (''visibility'', JStr ''deleted''),
                         (''deleteFiles'', JBool False)]) tr1 of
             (Inl e, tr2) \<Rightarrow> (Inl e, tr2)
           | (Inr result, tr2) \<Rightarrow>
               (Inr [(''ok'', JBool True), (''card_id'', JStr cardId), (''result'', JObj result)], tr2)))"

subsection \<open>Scaffolding\<close>

record scaffold_options =
  sc_title :: json
  sc_codeDeck :: string
  sc_designDeck :: string
  sc_artDeck :: "string option"
  sc_skipArt :: "bool option"
  sc_audioDeck :: "string option"
  sc_skipAudio :: "bool option"
  sc_description :: "string option"

text \<open>The loop over the lanes (name and deck), on \<open>subcards\<close> and the trace.\<close>

fun lane_loop ::
  "config \<Rightarrow> transport \<Rightarrow> json \<Rightarrow> (string \<times> string) list \<Rightarrow> json list \<Rightarrow> call list
     \<Rightarrow> (error + json list) \<times> call list" where
  "lane_loop cfg tp title [] subcards tr = (Inr subcards, tr)"
| "lane_loop cfg tp title (lane # lanes) subcards tr =
     (case createCard cfg tp
             \<lparr>co_title = JStr (js_String title @ '' - '' @ fst lane),
              co_content = None, co_severity = None\<rparr> tr of
        (Inl e, tr') \<Rightarrow> (Inl e, tr')
      | (Inr sub, tr') \<Rightarrow>
          lane_loop cfg tp title lanes
            (subcards @ [JObj [(''lane'', JStr (fst lane)), (''card_id'', lookup sub ''card_id'')]]) tr')"

definition scaffoldFeature ::
  "config \<Rightarrow> transport \<Rightarrow> scaffold_options \<Rightarrow> call list \<Rightarrow> (error + obj) \<times> call list" where
  "scaffoldFeature cfg tp opts tr =
     (case createCard cfg tp
             \<lparr>co_title = sc_title opts, co_content = sc_description opts, co_severity = None\<rparr> tr of
        (Inl e, tr1) \<Rightarrow> (Inl e, tr1)
      | (Inr hero, tr1) \<Rightarrow>
          (let heroId = lookup hero ''card_id'';
               lanes = [(''Code'', sc_codeDeck opts), (''Design'', sc_designDeck opts)]
                 @ (case sc_artDeck opts of
                      None \<Rightarrow> []
                    | Some d \<Rightarrow> if \<not> flag (sc_skipArt opts) \<and> d \<noteq> [] then [(''Art'', d)] else [])
                 @ (case sc_audioDeck opts of
                      None \<Rightarrow> []
                    | Some d \<Rightarrow> if \<not> flag (sc_skipAudio opts) \<and> d \<noteq> [] then [(''Audio'', d)] else [])
           in case lane_loop cfg tp (sc_title opts) lanes [] tr1 of
                (Inl e, tr2) \<Rightarrow> (Inl e, tr2)
              | (Inr subcards, tr2) \<Rightarrow>
                  (Inr [(''ok'', JBool True), (''hero_id'', heroId), (''title'', sc_title opts),
                        (''subcards'', JArr subcards)], tr2)))"

record split_options =
  sf_deck :: string
  sf_codeDeck :: string
  sf_designDeck :: string
  sf_artDeck :: "string option"
  sf_skipArt :: "bool option"
  sf_audioDeck :: "string option"
  sf_skipAudio :: "bool option"
  sf_dryRun :: "bool option"

text \<open>A card with no child cards: \<^verbatim>\<open>!info || (info.count ?? 0) === 0\<close>.\<close>

definition unsplit :: "json \<Rightarrow> bool" where
  "unsplit c =
     (let info = get_prop c ''childCardInfo''
      in \<not> truthy info \<or> coalesce (get_prop info ''count'') (JNum 0) = JNum 0)"

text \<open>The loop over the features, on \<open>processed\<close>, \<open>details\<close> and the trace.\<close>

fun feature_loop ::
  "config \<Rightarrow> transport \<Rightarrow> split_options \<Rightarrow> json list \<Rightarrow> nat \<Rightarrow> json list \<Rightarrow> call list
     \<Rightarrow> (nat \<times> json list) \<times> call list" where
  "feature_loop cfg tp opts [] processed details tr = ((processed, details), tr)"
| "feature_loop cfg tp opts (feature # features) processed details tr =
     (case scaffoldFeature cfg tp
             \<lparr>sc_title = get_prop feature ''title'',
              sc_codeDeck = sf_codeDeck opts, sc_designDeck = sf_designDeck opts,
              sc_artDeck = sf_artDeck opts, sc_skipArt = sf_skipArt opts,
              sc_audioDeck = sf_audioDeck opts, sc_skipAudio = sf_skipAudio opts,
              sc_description = None\<rparr> tr of
        (Inr result, tr') \<Rightarrow>
          feature_loop cfg tp opts features (processed + 1) (details @ [JObj result]) tr'
      | (Inl err, tr') \<Rightarrow>
          feature_loop cfg tp opts features processed
            (details @ [JObj [(''ok'', JBool False), (''title'', get_prop feature ''title''),
                              (''error'', JStr (message err))]]) tr')"

definition splitFeatures ::
  "runtime \<Rightarrow> config \<Rightarrow> transport \<Rightarrow> split_options \<Rightarrow> call list \<Rightarrow> (error + obj) \<times> call list" where
  "splitFeatures rt cfg tp opts tr =
     (case listCards rt tp
             \<lparr>lo_deck = Some (sf_deck opts), lo_status = None, lo_search = None, lo_owner = None,
              lo_sort = None, lo_staleDays = None, lo_archived = None, lo_includeStats = None\<rparr> tr of
        (Inl e, tr1) \<Rightarrow> (Inl e, tr1)
      | (Inr all, tr1) \<Rightarrow>
          (case coalesce (lookup all ''cards'') (JArr []) of
             JArr cards \<Rightarrow>
               (let features = filter unsplit cards in
                if flag (sf_dryRun opts) then
                  (Inr [(''ok'', JBool True), (''dry_run'', JBool True),
                        (''features_found'', JNum (int (length features))),
                        (''features'', JArr (map (\<lambda>f. JObj [(''id'', get_prop f ''id''),
                                                              (''title'', get_prop f ''title'')]) features))],
                   tr1)
                else
                  (case feature_loop cfg tp opts features 0 [] tr1 of
                     ((processed, details), tr2) \<Rightarrow>
                       (Inr [(''ok'', JBool True),
                             (''features_processed'', JNum (int processed)),
                             (''features_skipped'', JNum (int (length features) - int processed)),
                             (''details'', JArr details)], tr2)))
           | _ \<Rightarrow> (Inl (TypeError ''cards.filter is not a function''), tr1)))"


section \<open>Objects\<close>

lemma lookup_update: "lookup (AList.update k v kvs) k' = (if k = k' then v else lookup kvs k')"
  by (simp add: lookup_def update_conv')

lemma nullish_assign_lookup:
  "lookup (nullish_assign k v kvs) k' =
     (if k = k' \<and> nullish (lookup kvs k) then v else lookup kvs k')"
  by (simp add: nullish_assign_def lookup_update)

lemma nullish_assign_noop: "\<not> nullish (lookup kvs k) \<Longrightarrow> nullish_assign k v kvs = kvs"
  by (simp add: nullish_assign_def)

section \<open>Identifier validation\<close>

text \<open>
  Claim C3. For every string \<open>I\<close>, \<^verbatim>\<open>validateUuid\<close> returns \<open>I\<close> unchanged if and
  only if \<open>I\<close> has length 36 and holds exactly 4 hyphens, and throws a \<open>CliError\<close>
  for any other string. The hyphenated 36-character identifier is accepted; the
  8-character one and the 32 digits without hyphens are rejected.
\<close>

theorem validateUuid_iff:
  "(validateUuid I field = Inr I \<longleftrightarrow>
      length I = 36 \<and> length (filter (\<lambda>c. c = CHR ''-'') I) = 4) \<and>
   (\<not> (length I = 36 \<and> length (filter (\<lambda>c. c = CHR ''-'') I) = 4) \<longrightarrow>
      (\<exists>msg. validateUuid I field = Inl (CliError msg))) \<and>
   validateUuid ''12345678-1234-1234-1234-123456789012'' field =
      Inr ''12345678-1234-1234-1234-123456789012'' \<and>
   (\<exists>msg. validateUuid ''12345678'' field = Inl (CliError msg)) \<and>
   (\<exists>msg. validateUuid ''12345678123412341234123456789012'' field = Inl (CliError msg))"
  by (simp add: validateUuid_def)

theorem validateUuid_iff_witness:
  "validateUuid ''abcdefab-abcd-abcd-abcd-abcdefabcdef'' ''card_id'' =
      Inr ''abcdefab-abcd-abcd-abcd-abcdefabcdef'' \<and>
   (\<exists>msg. validateUuid ''bad-id'' ''card_ids'' = Inl (CliError msg))"
  using validateUuid_iff [of "''abcdefab-abcd-abcd-abcd-abcdefabcdef''" "''card_id''"]
        validateUuid_iff [of "''bad-id''" "''card_ids''"]
  by simp

section \<open>Normalization of the response contract\<close>

lemma ensureContractDict_schema:
  "lookup (ensureContractDict p) ''schema_version'' =
     (if nullish (lookup p ''schema_version'') then JStr CONTRACT_SCHEMA_VERSION
      else lookup p ''schema_version'')"
  by (simp add: ensureContractDict_def Let_def nullish_assign_lookup lookup_update split: json.splits)

lemma ensureContractDict_ok:
  "lookup (ensureContractDict p) ''ok'' =
     (if nullish (lookup p ''ok'') then JBool True else lookup p ''ok'')"
  by (auto simp add: ensureContractDict_def Let_def nullish_assign_lookup lookup_update nullish_def split: json.splits)

lemma ensureContractDict_error_detail:
  "lookup p ''ok'' = JBool False \<Longrightarrow>
   lookup (ensureContractDict p) ''error_detail'' =
     (if nullish (lookup p ''error_detail'')
      then JObj [(''type'', JStr (js_String (coalesce (lookup p ''type'') (JStr ''error'')))),
                 (''message'', JStr (case lookup p ''error'' of JStr s \<Rightarrow> s | e \<Rightarrow> js_String e))]
      else lookup p ''error_detail'')"
  by (auto simp add: ensureContractDict_def Let_def nullish_assign_lookup lookup_update nullish_def coalesce_def split: json.splits)

lemma ensureContractDict_unchanged:
  "\<not> nullish (lookup p ''schema_version'') \<Longrightarrow> \<not> nullish (lookup p ''ok'') \<Longrightarrow>
   lookup p ''ok'' \<noteq> JBool False \<Longrightarrow> ensureContractDict p = p"
  by (simp add: ensureContractDict_def Let_def nullish_assign_noop)

lemma ensureContractDict_idem: "ensureContractDict (ensureContractDict p) = ensureContractDict p"
proof -
  let ?q = "ensureContractDict p"
  have sv: "\<not> nullish (lookup ?q ''schema_version'')"
    by (simp add: ensureContractDict_schema nullish_def CONTRACT_SCHEMA_VERSION_def)
  have ok: "\<not> nullish (lookup ?q ''ok'')"
    by (simp add: ensureContractDict_ok nullish_def)
  show ?thesis
  proof (cases "lookup ?q ''ok'' = JBool False")
    case False
    then show ?thesis
      using sv ok by (subst ensureContractDict_def) (simp add: Let_def nullish_assign_noop)
  next
    case True
    have err: "\<exists>s. lookup ?q ''error'' = JStr s"
      using True
      by (auto simp add: ensureContractDict_def Let_def nullish_assign_lookup lookup_update nullish_def split: json.splits if_splits)
    have det: "\<not> nullish (lookup ?q ''error_detail'')"
      using True
      by (auto simp add: ensureContractDict_def Let_def nullish_assign_lookup lookup_update nullish_def split: json.splits if_splits)
    from err obtain s where s: "lookup ?q ''error'' = JStr s" by blast
    show ?thesis
      using sv True s det by (subst ensureContractDict_def) (simp add: Let_def nullish_assign_noop)
  qed
qed

text \<open>
  Claim C2. Normalizing twice is normalizing once. \<open>schema_version\<close> and \<open>ok\<close> are set
  only where the payload has none (a missing, \<^verbatim>\<open>undefined\<close> or \<^verbatim>\<open>null\<close> property, as
  \<^verbatim>\<open>??=\<close> reads it), so a payload that has both and is no error is returned as it is;
  for a payload with \<open>ok: false\<close>, \<open>error_detail\<close> is built from \<open>type\<close> and \<open>error\<close>
  only where the payload has none.
\<close>

theorem ensureContractDict_idempotent:
  "ensureContractDict (ensureContractDict P) = ensureContractDict P \<and>
   lookup (ensureContractDict P) ''schema_version'' =
     (if nullish (lookup P ''schema_version'') then JStr CONTRACT_SCHEMA_VERSION
      else lookup P ''schema_version'') \<and>
   lookup (ensureContractDict P) ''ok'' =
     (if nullish (lookup P ''ok'') then JBool True else lookup P ''ok'') \<and>
   (\<not> nullish (lookup P ''schema_version'') \<and> \<not> nullish (lookup P ''ok'') \<and>
      lookup P ''ok'' \<noteq> JBool False \<longrightarrow> ensureContractDict P = P) \<and>
   (lookup P ''ok'' = JBool False \<longrightarrow>
      lookup (ensureContractDict P) ''error_detail'' =
        (if nullish (lookup P ''error_detail'')
         then JObj [(''type'', JStr (js_String (coalesce (lookup P ''type'') (JStr ''error'')))),
                    (''message'', JStr (case lookup P ''error'' of JStr s \<Rightarrow> s | e \<Rightarrow> js_String e))]
         else lookup P ''error_detail''))"
  using ensureContractDict_idem ensureContractDict_schema ensureContractDict_ok
    ensureContractDict_unchanged ensureContractDict_error_detail
  by blast

theorem ensureContractDict_idempotent_witness:
  "ensureContractDict (ensureContractDict [(''ok'', JBool False), (''error'', JStr ''bad''), (''type'', JStr ''error'')])
     = ensureContractDict [(''ok'', JBool False), (''error'', JStr ''bad''), (''type'', JStr ''error'')] \<and>
   lookup (ensureContractDict [(''ok'', JBool False), (''error'', JStr ''bad''), (''type'', JStr ''error'')])
      ''error_detail'' = JObj [(''type'', JStr ''error''), (''message'', JStr ''bad'')] \<and>
   lookup (ensureContractDict [(''ok'', JBool False), (''error'', JStr ''bad''), (''type'', JStr ''error'')])
      ''schema_version'' = JStr ''1.0'' \<and>
   ensureContractDict [(''data'', JStr ''hello''), (''schema_version'', JStr ''1.0''), (''ok'', JBool True)]
     = [(''data'', JStr ''hello''), (''schema_version'', JStr ''1.0''), (''ok'', JBool True)]"
  using ensureContractDict_idempotent [of "[(''ok'', JBool False), (''error'', JStr ''bad''), (''type'', JStr ''error'')]"]
    ensureContractDict_idempotent [of "[(''data'', JStr ''hello''), (''schema_version'', JStr ''1.0''), (''ok'', JBool True)]"]
  by (simp add: lookup_def nullish_def coalesce_def CONTRACT_SCHEMA_VERSION_def)

section \<open>Tagging of user text\<close>

lemma tagUserText_str: "tagUserText (JStr s) = JStr (wrap s)"
  by (simp add: tagUserText_def nullish_def)

lemma sanitize_field_fst:
  "fst (sanitize_field a ow) =
     (case lookup (fst ow) a of JStr s \<Rightarrow> AList.update a (JStr (wrap s)) (fst ow) | _ \<Rightarrow> fst ow)"
  by (simp add: sanitize_field_def lookup_def tagUserText_str split: option.splits json.splits)

lemma sanitize_field_lookup:
  "lookup (fst (sanitize_field a ow)) f =
     (if a = f then (case lookup (fst ow) f of JStr s \<Rightarrow> JStr (wrap s) | v \<Rightarrow> v)
      else lookup (fst ow) f)"
  by (simp add: sanitize_field_fst lookup_update split: json.splits)

lemma fold_sanitize_lookup:
  "distinct fs \<Longrightarrow>
   lookup (fst (fold sanitize_field fs ow)) f =
     (if f \<in> set fs then (case lookup (fst ow) f of JStr s \<Rightarrow> JStr (wrap s) | v \<Rightarrow> v)
      else lookup (fst ow) f)"
proof (induction fs arbitrary: ow)
  case Nil
  then show ?case by simp
next
  case (Cons a fs)
  then show ?case
    by (auto simp add: sanitize_field_lookup)
qed

lemma sanitizeCard_field:
  assumes "f \<in> set USER_TEXT_FIELDS"
  shows "lookup (sanitizeCard c) f = (case lookup c f of JStr s \<Rightarrow> JStr (wrap s) | v \<Rightarrow> v)"
proof -
  have d: "distinct USER_TEXT_FIELDS" by (simp add: USER_TEXT_FIELDS_def)
  have n: "f \<noteq> ''sub_cards''" "f \<noteq> ''conversations''" "f \<noteq> ''_safety_warnings''"
    using assms by (auto simp add: USER_TEXT_FIELDS_def)
  have "lookup (sanitizeCard c) f = lookup (fst (fold sanitize_field USER_TEXT_FIELDS (c, []))) f"
    using n by (simp add: sanitizeCard_def Let_def lookup_update split: json.splits)
  then show ?thesis using assms by (simp add: fold_sanitize_lookup [OF d])
qed

text \<open>
  Claim C8, as the code has it. \<^verbatim>\<open>tagUserText\<close> wraps unconditionally, so every
  application of \<^verbatim>\<open>sanitizeCard\<close> puts one more pair of markers around each
  string-valued user text field (title, content, deck_name, owner_name,
  milestone_name): after one application the field holds the text in one pair, after
  two applications in two nested pairs, and the second result differs from the first.
\<close>

theorem sanitizeCard_wraps_again:
  assumes "f \<in> set USER_TEXT_FIELDS" and "lookup C f = JStr s"
  shows "lookup (sanitizeCard C) f = JStr (''[USER_DATA]'' @ s @ ''[/USER_DATA]'') \<and>
         lookup (sanitizeCard (sanitizeCard C)) f =
           JStr (''[USER_DATA][USER_DATA]'' @ s @ ''[/USER_DATA][/USER_DATA]'') \<and>
         sanitizeCard (sanitizeCard C) \<noteq> sanitizeCard C"
proof -
  have one: "lookup (sanitizeCard C) f = JStr (wrap s)"
    using assms by (simp add: sanitizeCard_field)
  have two: "lookup (sanitizeCard (sanitizeCard C)) f = JStr (wrap (wrap s))"
    using assms(1) one by (simp add: sanitizeCard_field)
  have "length (wrap (wrap s)) \<noteq> length (wrap s)" by (simp add: wrap_def)
  then have "wrap (wrap s) \<noteq> wrap s" by metis
  with one two have "sanitizeCard (sanitizeCard C) \<noteq> sanitizeCard C" by auto
  with one two show ?thesis by (simp add: wrap_def)
qed

theorem sanitizeCard_wraps_again_witness:
  "lookup (sanitizeCard [(''title'', JStr ''My Card''), (''status'', JStr ''started'')]) ''title''
     = JStr ''[USER_DATA]My Card[/USER_DATA]'' \<and>
   lookup (sanitizeCard (sanitizeCard [(''title'', JStr ''My Card''), (''status'', JStr ''started'')])) ''title''
     = JStr ''[USER_DATA][USER_DATA]My Card[/USER_DATA][/USER_DATA]''"
  using sanitizeCard_wraps_again [of "''title''" "[(''title'', JStr ''My Card''), (''status'', JStr ''started'')]" "''My Card''"]
  by (simp add: USER_TEXT_FIELDS_def lookup_def)

text \<open>
  The claim as stated fails on the card \<open>{title: "x"}\<close>: sanitized once its title has
  one pair of markers, sanitized twice it has two, nested.
\<close>

theorem sanitizeCard_idempotent_counterexample:
  "lookup (sanitizeCard [(''title'', JStr ''x'')]) ''title'' = JStr ''[USER_DATA]x[/USER_DATA]'' \<and>
   lookup (sanitizeCard (sanitizeCard [(''title'', JStr ''x'')])) ''title''
     = JStr ''[USER_DATA][USER_DATA]x[/USER_DATA][/USER_DATA]'' \<and>
   lookup (sanitizeCard (sanitizeCard [(''title'', JStr ''x'')])) ''title''
     \<noteq> lookup (sanitizeCard [(''title'', JStr ''x'')]) ''title''"
proof -
  have t: "''title'' \<in> set USER_TEXT_FIELDS" by (simp add: USER_TEXT_FIELDS_def)
  have zero: "lookup [(''title'', JStr ''x'')] ''title'' = JStr ''x''"
    by (simp add: lookup_def)
  have one: "lookup (sanitizeCard [(''title'', JStr ''x'')]) ''title'' = JStr (wrap ''x'')"
    by (simp add: sanitizeCard_field [OF t] zero)
  have two: "lookup (sanitizeCard (sanitizeCard [(''title'', JStr ''x'')])) ''title'' = JStr (wrap (wrap ''x''))"
    using one by (simp add: sanitizeCard_field [OF t])
  show ?thesis using one two by (simp add: wrap_def)
qed

section \<open>Dispatches\<close>

lemma sessionRequest_trace: "snd (sessionRequest tp c tr) = tr @ [c]"
  by (simp add: sessionRequest_def split: sum.splits error.splits)

lemma dispatch_trace: "snd (dispatch tp path d tr) = tr @ [Dispatch path d]"
  by (simp add: dispatch_def sessionRequest_trace)

lemma dispatch_cases:
  obtains (ok) r where "dispatch tp path d tr = (Inr r, tr @ [Dispatch path d])"
        | (err) e where "dispatch tp path d tr = (Inl e, tr @ [Dispatch path d])"
proof (cases "fst (dispatch tp path d tr)")
  case (Inl e)
  then have "dispatch tp path d tr = (Inl e, tr @ [Dispatch path d])"
    by (metis dispatch_trace prod.collapse)
  then show ?thesis by (rule err)
next
  case (Inr r)
  then have "dispatch tp path d tr = (Inr r, tr @ [Dispatch path d])"
    by (metis dispatch_trace prod.collapse)
  then show ?thesis by (rule ok)
qed

section \<open>Batch update\<close>

lemma get_prop_obj: "get_prop (JObj kvs) k = lookup kvs k"
  by (simp add: get_prop_def)

lemma succeeded_snoc:
  "succeeded (rs @ [r]) = succeeded rs + (if get_prop r ''ok'' = JBool True then 1 else 0)"
  by (simp add: succeeded_def)

lemma update_loop_counts:
  "update_loop tp opts ids results updated tr = ((results', updated'), tr') \<Longrightarrow>
   updated = succeeded results \<Longrightarrow> updated' = succeeded results'"
proof (induction ids arbitrary: results updated tr)
  case Nil
  then show ?case by auto
next
  case (Cons a ids)
  let ?c = "Dispatch ''cards/update'' (JObj (update_payload opts a))"
  show ?case
  proof (cases rule: dispatch_cases [of tp "''cards/update''" "JObj (update_payload opts a)" tr])
    case (ok r)
    let ?e = "JObj [(''card_id'', JStr a), (''ok'', JBool True), (''result'', JObj r)]"
    from Cons.prems(1) ok
    have run: "update_loop tp opts ids (results @ [?e]) (updated + 1) (tr @ [?c]) = ((results', updated'), tr')"
      by simp
    have "updated + 1 = succeeded (results @ [?e])"
      using Cons.prems(2) by (simp add: succeeded_snoc get_prop_obj lookup_def)
    with run show ?thesis by (rule Cons.IH)
  next
    case (err e)
    let ?e = "JObj [(''card_id'', JStr a), (''ok'', JBool False), (''error'', JStr (message e))]"
    have cnt: "updated = succeeded (results @ [?e])"
      using Cons.prems(2) by (simp add: succeeded_snoc get_prop_obj lookup_def)
    show ?thesis
    proof (cases "flag (continueOnError opts)")
      case True
      with Cons.prems(1) err
      have "update_loop tp opts ids (results @ [?e]) updated (tr @ [?c]) = ((results', updated'), tr')"
        by simp
      then show ?thesis using cnt by (rule Cons.IH)
    next
      case False
      with Cons.prems(1) err have "results' = results @ [?e]" "updated' = updated"
        by simp_all
      with cnt show ?thesis by simp
    qed
  qed
qed


text \<open>
  Claim C4. With \<open>continueOnError\<close> unset or false and card ids \<open>[A, B, C]\<close>, when the
  dispatch for \<open>A\<close> returns \<open>rA\<close> and the dispatch for \<open>B\<close> throws \<open>err\<close>, the
  result is \<open>ok: true\<close>, \<open>updated: 1\<close>, a success entry for \<open>A\<close> and a failure entry
  for \<open>B\<close> with the message of \<open>err\<close>; the calls made are the dispatch for \<open>A\<close> and then
  the dispatch for \<open>B\<close>, and none for \<open>C\<close>. For every batch update, \<open>ok\<close> is true if and
  only if some entry of the results succeeded, and \<open>updated\<close> counts those entries.
\<close>

theorem updateCards_partial_failure:
  "(\<not> flag (continueOnError opts) \<and> cardIds opts = [A, B, C] \<and>
    fst (dispatch tp ''cards/update'' (JObj (update_payload opts A)) tr) = Inr rA \<and>
    fst (dispatch tp ''cards/update'' (JObj (update_payload opts B))
          (tr @ [Dispatch ''cards/update'' (JObj (update_payload opts A))])) = Inl err
    \<longrightarrow>
    updateCards tp opts tr =
      ([(''ok'', JBool True), (''updated'', JNum 1),
        (''results'', JArr
           [JObj [(''card_id'', JStr A), (''ok'', JBool True), (''result'', JObj rA)],
            JObj [(''card_id'', JStr B), (''ok'', JBool False), (''error'', JStr (message err))]])],
       tr @ [Dispatch ''cards/update'' (JObj (update_payload opts A)),
             Dispatch ''cards/update'' (JObj (update_payload opts B))])) \<and>
   (\<exists>rs. fst (updateCards tp' opts' tr') =
      [(''ok'', JBool (0 < succeeded rs)), (''updated'', JNum (int (succeeded rs))),
       (''results'', JArr rs)])"
proof (intro conjI impI)
  assume h: "\<not> flag (continueOnError opts) \<and> cardIds opts = [A, B, C] \<and>
    fst (dispatch tp ''cards/update'' (JObj (update_payload opts A)) tr) = Inr rA \<and>
    fst (dispatch tp ''cards/update'' (JObj (update_payload opts B))
          (tr @ [Dispatch ''cards/update'' (JObj (update_payload opts A))])) = Inl err"
  let ?a = "Dispatch ''cards/update'' (JObj (update_payload opts A))"
  let ?b = "Dispatch ''cards/update'' (JObj (update_payload opts B))"
  have a: "dispatch tp ''cards/update'' (JObj (update_payload opts A)) tr = (Inr rA, tr @ [?a])"
    using h by (metis dispatch_trace prod.collapse)
  have b: "dispatch tp ''cards/update'' (JObj (update_payload opts B)) (tr @ [?a]) = (Inl err, tr @ [?a, ?b])"
    using h dispatch_trace [of tp "''cards/update''" "JObj (update_payload opts B)" "tr @ [?a]"]
    by (metis append.assoc append_Cons append_Nil prod.collapse)
  show "updateCards tp opts tr =
      ([(''ok'', JBool True), (''updated'', JNum 1),
        (''results'', JArr
           [JObj [(''card_id'', JStr A), (''ok'', JBool True), (''result'', JObj rA)],
            JObj [(''card_id'', JStr B), (''ok'', JBool False), (''error'', JStr (message err))]])],
       tr @ [?a, ?b])"
    using h a b by (simp add: updateCards_def)
next
  obtain rs n t where run: "update_loop tp' opts' (cardIds opts') [] 0 tr' = ((rs, n), t)"
    by (metis prod.collapse)
  have "n = succeeded rs"
    using run by (rule update_loop_counts) (simp add: succeeded_def)
  with run show "\<exists>rs. fst (updateCards tp' opts' tr') =
      [(''ok'', JBool (0 < succeeded rs)), (''updated'', JNum (int (succeeded rs))),
       (''results'', JArr rs)]"
    by (auto simp add: updateCards_def)
qed

theorem updateCards_partial_failure_witness:
  "updateCards (\<lambda>tr c. if length tr = 1 then Inl (CliError ''[ERROR] Connection failed: reset'') else Inr (JObj []))
      \<lparr>cardIds = [''a'', ''b'', ''c''], uo_status = Some ''done'', uo_priority = None,
        uo_effort = None, uo_title = None, uo_content = None, uo_milestone = None, uo_owner = None,
        continueOnError = None\<rparr> [] =
     ([(''ok'', JBool True), (''updated'', JNum 1),
       (''results'', JArr
          [JObj [(''card_id'', JStr ''a''), (''ok'', JBool True), (''result'', JObj [])],
           JObj [(''card_id'', JStr ''b''), (''ok'', JBool False),
                 (''error'', JStr ''[ERROR] Connection failed: reset'')]])],
      [Dispatch ''cards/update'' (JObj [(''id'', JStr ''a''), (''status'', JStr ''done'')]),
       Dispatch ''cards/update'' (JObj [(''id'', JStr ''b''), (''status'', JStr ''done'')])])"
  using updateCards_partial_failure
    [of "\<lparr>cardIds = [''a'', ''b'', ''c''], uo_status = Some ''done'', uo_priority = None,
        uo_effort = None, uo_title = None, uo_content = None, uo_milestone = None, uo_owner = None,
        continueOnError = None\<rparr>" "''a''" "''b''" "''c''"
        "\<lambda>tr c. if length tr = 1 then Inl (CliError ''[ERROR] Connection failed: reset'') else Inr (JObj [])"
        "[]" "[]" "CliError ''[ERROR] Connection failed: reset''"]
  by (simp add: dispatch_def sessionRequest_def expectObject_def update_payload_def set_nullable_def flag_def)

text \<open>
  Claim C10. A batch update of no card ids makes no call and returns \<open>ok: false\<close>,
  \<open>updated: 0\<close> and no results.
\<close>

theorem updateCards_empty:
  "updateCards tp (opts\<lparr>cardIds := []\<rparr>) tr =
     ([(''ok'', JBool False), (''updated'', JNum 0), (''results'', JArr [])], tr)"
  by (simp add: updateCards_def)


theorem updateCards_empty_witness:
  "updateCards (\<lambda>tr c. Inr (JObj []))
      \<lparr>cardIds = [], uo_status = Some ''done'', uo_priority = None,
        uo_effort = None, uo_title = None, uo_content = None, uo_milestone = None, uo_owner = None,
        continueOnError = None\<rparr> [] =
     ([(''ok'', JBool False), (''updated'', JNum 0), (''results'', JArr [])], [])"
  using updateCards_empty
    [of "\<lambda>tr c. Inr (JObj [])"
        "\<lparr>cardIds = [''a''], uo_status = Some ''done'', uo_priority = None,
        uo_effort = None, uo_title = None, uo_content = None, uo_milestone = None, uo_owner = None,
        continueOnError = None\<rparr>" "[]"]
  by simp

section \<open>Delete\<close>

text \<open>
  Claim C7, as the code has it. The first call of \<^verbatim>\<open>deleteCard\<close> is always the
  archive dispatch. When it throws, its error is the outcome and no other call is made.
  When it returns, the second and last call is the permanent-remove dispatch; when that
  one throws, its error is the outcome of \<^verbatim>\<open>deleteCard\<close>, which then returns no
  success result; the success result is returned only when the remove dispatch returned.
\<close>

theorem deleteCard_two_phase:
  "(\<exists>rest. snd (deleteCard tp X tr) =
      tr @ Dispatch ''cards/update'' (JObj [(''id'', JStr X), (''visibility'', JStr ''archived'')]) # rest) \<and>
   (\<forall>e. fst (dispatch tp ''cards/update''
              (JObj [(''id'', JStr X), (''visibility'', JStr ''archived'')]) tr) = Inl e \<longrightarrow>
      deleteCard tp X tr =
        (Inl e, tr @ [Dispatch ''cards/update'' (JObj [(''id'', JStr X), (''visibility'', JStr ''archived'')])])) \<and>
   (\<forall>a. fst (dispatch tp ''cards/update''
              (JObj [(''id'', JStr X), (''visibility'', JStr ''archived'')]) tr) = Inr a \<longrightarrow>
      snd (deleteCard tp X tr) =
        tr @ [Dispatch ''cards/update'' (JObj [(''id'', JStr X), (''visibility'', JStr ''archived'')]),
              Dispatch ''cards/bulkUpdate''
                (JObj [(''ids'', JArr [JStr X]), (''visibility'', JStr ''deleted''),
                       (''deleteFiles'', JBool False)])] \<and>
      (\<forall>e. fst (dispatch tp ''cards/bulkUpdate''
                 (JObj [(''ids'', JArr [JStr X]), (''visibility'', JStr ''deleted''),
                        (''deleteFiles'', JBool False)])
                 (tr @ [Dispatch ''cards/update''
                          (JObj [(''id'', JStr X), (''visibility'', JStr ''archived'')])])) = Inl e \<longrightarrow>
         fst (deleteCard tp X tr) = Inl e) \<and>
      (\<forall>r. fst (dispatch tp ''cards/bulkUpdate''
                 (JObj [(''ids'', JArr [JStr X]), (''visibility'', JStr ''deleted''),
                        (''deleteFiles'', JBool False)])
                 (tr @ [Dispatch ''cards/update''
                          (JObj [(''id'', JStr X), (''visibility'', JStr ''archived'')])])) = Inr r \<longrightarrow>
         fst (deleteCard tp X tr) =
           Inr [(''ok'', JBool True), (''card_id'', JStr X), (''result'', JObj r)]))"
proof -
  let ?pa = "JObj [(''id'', JStr X), (''visibility'', JStr ''archived'')]"
  let ?pr = "JObj [(''ids'', JArr [JStr X]), (''visibility'', JStr ''deleted''), (''deleteFiles'', JBool False)]"
  let ?a = "Dispatch ''cards/update'' ?pa"
  let ?r = "Dispatch ''cards/bulkUpdate'' ?pr"
  show ?thesis
  proof (cases rule: dispatch_cases [of tp "''cards/update''" ?pa tr])
    case (err e)
    then show ?thesis by (simp add: deleteCard_def)
  next
    case (ok a)
    note first = this
    show ?thesis
    proof (cases rule: dispatch_cases [of tp "''cards/bulkUpdate''" ?pr "tr @ [?a]"])
      case (err e)
      with first show ?thesis by (simp add: deleteCard_def)
    next
      case (ok r)
      with first show ?thesis by (simp add: deleteCard_def)
    qed
  qed
qed

theorem deleteCard_two_phase_witness:
  "deleteCard (\<lambda>tr c. if length tr = 1 then Inl (CliError ''[ERROR] Connection failed: reset'') else Inr (JObj []))
      ''x'' [] =
     (Inl (CliError ''[ERROR] Connection failed: reset''),
      [Dispatch ''cards/update'' (JObj [(''id'', JStr ''x''), (''visibility'', JStr ''archived'')]),
       Dispatch ''cards/bulkUpdate''
         (JObj [(''ids'', JArr [JStr ''x'']), (''visibility'', JStr ''deleted''),
                (''deleteFiles'', JBool False)])])"
proof -
  let ?tp = "\<lambda>(tr :: call list) (c :: call). if length tr = 1 then Inl (CliError ''[ERROR] Connection failed: reset'') else Inr (JObj [])"
  have a: "fst (dispatch ?tp ''cards/update''
              (JObj [(''id'', JStr ''x''), (''visibility'', JStr ''archived'')]) []) = Inr []"
    by (simp add: dispatch_def sessionRequest_def expectObject_def)
  have r: "fst (dispatch ?tp ''cards/bulkUpdate''
                 (JObj [(''ids'', JArr [JStr ''x'']), (''visibility'', JStr ''deleted''),
                        (''deleteFiles'', JBool False)])
                 ([] @ [Dispatch ''cards/update''
                          (JObj [(''id'', JStr ''x''), (''visibility'', JStr ''archived'')])]))
           = Inl (CliError ''[ERROR] Connection failed: reset'')"
    by (simp add: dispatch_def sessionRequest_def expectObject_def)
  from deleteCard_two_phase [of ?tp "''x''" "[]"] a r
  have "snd (deleteCard ?tp ''x'' []) =
          [] @ [Dispatch ''cards/update'' (JObj [(''id'', JStr ''x''), (''visibility'', JStr ''archived'')]),
              Dispatch ''cards/bulkUpdate''
                (JObj [(''ids'', JArr [JStr ''x'']), (''visibility'', JStr ''deleted''),
                       (''deleteFiles'', JBool False)])]"
    and "fst (deleteCard ?tp ''x'' []) = Inl (CliError ''[ERROR] Connection failed: reset'')"
    by blast+
  then show ?thesis by (simp add: prod_eq_iff)
qed

text \<open>
  The claim as stated fails when the archive dispatch throws: it is then the only call,
  and no permanent-remove call is issued.
\<close>

theorem deleteCard_archive_fails_counterexample:
  "deleteCard (\<lambda>tr c. Inl (CliError ''[ERROR] Connection failed: reset'')) ''x'' [] =
     (Inl (CliError ''[ERROR] Connection failed: reset''),
      [Dispatch ''cards/update'' (JObj [(''id'', JStr ''x''), (''visibility'', JStr ''archived'')])])"
  by (simp add: deleteCard_def dispatch_def sessionRequest_def)

section \<open>Queries and the card listing\<close>

lemma query_cases:
  obtains (ok) r where "query tp q tr = (Inr r, tr @ [Query q])"
        | (err) e where "query tp q tr = (Inl e, tr @ [Query q])"
proof (cases "fst (sessionRequest tp (Query q) tr)")
  case (Inl e)
  then have "sessionRequest tp (Query q) tr = (Inl e, tr @ [Query q])"
    by (metis sessionRequest_trace prod.collapse)
  then have "query tp q tr = (Inl e, tr @ [Query q])" by (simp add: query_def)
  then show ?thesis by (rule err)
next
  case (Inr r)
  then have "sessionRequest tp (Query q) tr = (Inr r, tr @ [Query q])"
    by (metis sessionRequest_trace prod.collapse)
  then have "query tp q tr = (Inr (AList.delete ''_root'' r), tr @ [Query q])" by (simp add: query_def)
  then show ?thesis by (rule ok)
qed

lemma listDecks_cases:
  obtains (ok) r where "listDecks tp tr = (Inr r, tr @ [Query decks_query])"
        | (err) e where "listDecks tp tr = (Inl e, tr @ [Query decks_query])"
proof (cases rule: query_cases [of tp decks_query tr])
  case (ok r)
  then have "listDecks tp tr = (Inr [(''decks'', JArr (extractList r ''decks''))], tr @ [Query decks_query])"
    by (simp add: listDecks_def)
  then show ?thesis by (rule that(1))
next
  case (err e)
  then have "listDecks tp tr = (Inl e, tr @ [Query decks_query])"
    by (simp add: listDecks_def)
  then show ?thesis by (rule that(2))
qed

lemma deck_filter_trace:
  "snd (deck_filter rt tp opts cq tr) = tr \<or>
   snd (deck_filter rt tp opts cq tr) = tr @ [Query decks_query]"
proof (cases rule: listDecks_cases [of tp tr])
  case (ok r)
  then show ?thesis
    by (simp add: deck_filter_def split: option.splits json.splits)
next
  case (err e)
  then show ?thesis
    by (simp add: deck_filter_def split: option.splits)
qed

lemma listCards_trace:
  "\<exists>qs. snd (listCards rt tp opts tr) = tr @ map Query qs \<and> length qs \<le> 2"
proof (cases "status_filter opts [(''visibility'', JStr (if flag (lo_archived opts) then ''archived'' else ''default''))]")
  case (Inl e)
  then have "snd (listCards rt tp opts tr) = tr @ map Query []"
    by (simp add: listCards_def)
  then show ?thesis by (metis list.size(3) zero_le)
next
  case (Inr p)
  obtain cq1 f where p: "p = (cq1, f)" by (cases p)
  obtain res1 tr1 where d: "deck_filter rt tp opts cq1 tr = (res1, tr1)" by (cases "deck_filter rt tp opts cq1 tr")
  have "tr1 = tr \<or> tr1 = tr @ [Query decks_query]"
    using deck_filter_trace [of rt tp opts cq1 tr] d by simp
  then obtain qs1 where tr1: "tr1 = tr @ map Query qs1" "length qs1 \<le> 1"
  proof
    assume "tr1 = tr"
    then have "tr1 = tr @ map Query []" by simp
    then show ?thesis using that by (metis list.size(3) zero_le)
  next
    assume "tr1 = tr @ [Query decks_query]"
    then have "tr1 = tr @ map Query [decks_query]" by simp
    then show ?thesis using that by (metis One_nat_def length_Cons list.size(3) order_refl)
  qed
  show ?thesis
  proof (cases res1)
    case (Inl e)
    then have "snd (listCards rt tp opts tr) = tr @ map Query qs1"
      using Inr p d tr1 by (simp add: listCards_def)
    then show ?thesis using tr1(2) by (metis le_SucI numeral_2_eq_2 One_nat_def)
  next
    case (Inr cq)
    note r1 = this
    have "snd (listCards rt tp opts tr) = tr @ map Query (qs1 @ [cards_query opts cq])"
    proof (cases rule: query_cases [of tp "cards_query opts cq" tr1])
      case (ok r)
      then show ?thesis using \<open>status_filter _ _ = Inr p\<close> p d r1 tr1
        by (simp add: listCards_def Let_def)
    next
      case (err e)
      then show ?thesis using \<open>status_filter _ _ = Inr p\<close> p d r1 tr1
        by (simp add: listCards_def)
    qed
    moreover have "length (qs1 @ [cards_query opts cq]) \<le> 2" using tr1(2) by simp
    ultimately show ?thesis by blast
  qed
qed

lemma listCards_result:
  "fst (listCards rt tp opts tr) = Inr all \<Longrightarrow>
   \<exists>cards stats. all = [(''cards'', JArr cards), (''stats'', stats), (''count'', JNum (int (length cards)))]"
  by (auto simp add: listCards_def Let_def split: sum.splits prod.splits)


lemmas client_defs = listCards_def status_filter_def deck_filter_def listDecks_def query_def
  sessionRequest_def expectObject_def extractList_def singular_def extractEntityMap_def lookup_def
  is_object_def coalesce_def nullish_def get_prop_def extractCards_def filter_status_def
  filter_search_def filter_owner_def filter_stale_def sort_cards_def flag_def given_def Let_def

section \<open>Split features, dry run\<close>

text \<open>
  Claim C9. With \<open>dryRun\<close> set, the calls of \<^verbatim>\<open>splitFeatures\<close> are exactly those
  of the card listing for the source deck: at most two calls, all of them queries (the
  deck lookup and the card query), and no dispatch or report. An error of the listing is
  the outcome; otherwise the result holds, besides the flags \<open>ok\<close> and \<open>dry_run\<close>, the
  number of cards without child cards and the id and title of each.
\<close>

theorem splitFeatures_dry_run:
  "flag (sf_dryRun opts) \<longrightarrow>
     snd (splitFeatures rt cfg tp opts tr) =
       snd (listCards rt tp
             \<lparr>lo_deck = Some (sf_deck opts), lo_status = None, lo_search = None, lo_owner = None,
              lo_sort = None, lo_staleDays = None, lo_archived = None, lo_includeStats = None\<rparr> tr) \<and>
     (\<exists>qs. snd (splitFeatures rt cfg tp opts tr) = tr @ map Query qs \<and> length qs \<le> 2) \<and>
     filter mutating (drop (length tr) (snd (splitFeatures rt cfg tp opts tr))) = [] \<and>
     (\<forall>e. fst (listCards rt tp
             \<lparr>lo_deck = Some (sf_deck opts), lo_status = None, lo_search = None, lo_owner = None,
              lo_sort = None, lo_staleDays = None, lo_archived = None, lo_includeStats = None\<rparr> tr) = Inl e
        \<longrightarrow> fst (splitFeatures rt cfg tp opts tr) = Inl e) \<and>
     (\<forall>cards stats n. fst (listCards rt tp
             \<lparr>lo_deck = Some (sf_deck opts), lo_status = None, lo_search = None, lo_owner = None,
              lo_sort = None, lo_staleDays = None, lo_archived = None, lo_includeStats = None\<rparr> tr)
            = Inr [(''cards'', JArr cards), (''stats'', stats), (''count'', n)]
        \<longrightarrow> fst (splitFeatures rt cfg tp opts tr) =
              Inr [(''ok'', JBool True), (''dry_run'', JBool True),
                   (''features_found'', JNum (int (length (filter unsplit cards)))),
                   (''features'', JArr (map (\<lambda>f. JObj [(''id'', get_prop f ''id''),
                                                         (''title'', get_prop f ''title'')])
                                          (filter unsplit cards)))])"
proof
  assume dry: "flag (sf_dryRun opts)"
  let ?lo = "\<lparr>lo_deck = Some (sf_deck opts), lo_status = None, lo_search = None, lo_owner = None,
              lo_sort = None, lo_staleDays = None, lo_archived = None, lo_includeStats = None\<rparr>"
  obtain res tr1 where l: "listCards rt tp ?lo tr = (res, tr1)" by (cases "listCards rt tp ?lo tr")
  have same: "snd (splitFeatures rt cfg tp opts tr) = tr1"
  proof (cases res)
    case (Inl e)
    with l show ?thesis by (simp add: splitFeatures_def)
  next
    case (Inr all)
    then obtain cards stats where "all = [(''cards'', JArr cards), (''stats'', stats), (''count'', JNum (int (length cards)))]"
      using listCards_result [of rt tp ?lo tr all] l by auto
    with Inr l dry show ?thesis
      by (simp add: splitFeatures_def lookup_def coalesce_def nullish_def Let_def)
  qed
  obtain qs where qs: "tr1 = tr @ map Query qs" "length qs \<le> 2"
    using listCards_trace [of rt tp ?lo tr] l by auto
  have nomut: "filter mutating (drop (length tr) tr1) = []"
    using qs(1) by (simp add: filter_empty_conv)
  have err: "\<forall>e. fst (listCards rt tp ?lo tr) = Inl e \<longrightarrow> fst (splitFeatures rt cfg tp opts tr) = Inl e"
    using l by (simp add: splitFeatures_def)
  have ok: "\<forall>cards stats n. fst (listCards rt tp ?lo tr) = Inr [(''cards'', JArr cards), (''stats'', stats), (''count'', n)]
        \<longrightarrow> fst (splitFeatures rt cfg tp opts tr) =
              Inr [(''ok'', JBool True), (''dry_run'', JBool True),
                   (''features_found'', JNum (int (length (filter unsplit cards)))),
                   (''features'', JArr (map (\<lambda>f. JObj [(''id'', get_prop f ''id''),
                                                         (''title'', get_prop f ''title'')])
                                          (filter unsplit cards)))]"
    using l dry by (simp add: splitFeatures_def lookup_def coalesce_def nullish_def Let_def)
  show "snd (splitFeatures rt cfg tp opts tr) = snd (listCards rt tp ?lo tr) \<and>
     (\<exists>qs. snd (splitFeatures rt cfg tp opts tr) = tr @ map Query qs \<and> length qs \<le> 2) \<and>
     filter mutating (drop (length tr) (snd (splitFeatures rt cfg tp opts tr))) = [] \<and>
     (\<forall>e. fst (listCards rt tp ?lo tr) = Inl e \<longrightarrow> fst (splitFeatures rt cfg tp opts tr) = Inl e) \<and>
     (\<forall>cards stats n. fst (listCards rt tp ?lo tr) = Inr [(''cards'', JArr cards), (''stats'', stats), (''count'', n)]
        \<longrightarrow> fst (splitFeatures rt cfg tp opts tr) =
              Inr [(''ok'', JBool True), (''dry_run'', JBool True),
                   (''features_found'', JNum (int (length (filter unsplit cards)))),
                   (''features'', JArr (map (\<lambda>f. JObj [(''id'', get_prop f ''id''),
                                                         (''title'', get_prop f ''title'')])
                                          (filter unsplit cards)))])"
    using same l qs nomut err ok by auto
qed

theorem splitFeatures_dry_run_witness:
  "fst (splitFeatures
      \<lparr>localeCompare = (\<lambda>a b. 0), toLowerCase = (\<lambda>s. s), parseDate = (\<lambda>s. None), daysAgo = (\<lambda>n. None)\<rparr>
      \<lparr>userId = ''u'', reportToken = ''t''\<rparr>
      (\<lambda>tr c. if tr = []
         then Inr (JObj [(''deck'', JObj [(''d1'', JObj [(''title'', JStr ''Features''), (''id'', JStr ''d1'')])])])
         else Inr (JObj [(''card'', JObj
                [(''c1'', JObj [(''id'', JStr ''c1''), (''title'', JStr ''Jump''),
                                (''childCardInfo'', JObj [(''count'', JNum 0)])]),
                 (''c2'', JObj [(''id'', JStr ''c2''), (''title'', JStr ''Run''),
                                (''childCardInfo'', JObj [(''count'', JNum 2)])])])]))
      \<lparr>sf_deck = ''Features'', sf_codeDeck = ''Code'', sf_designDeck = ''Design'', sf_artDeck = None,
        sf_skipArt = None, sf_audioDeck = None, sf_skipAudio = None, sf_dryRun = Some True\<rparr> [])
    = Inr [(''ok'', JBool True), (''dry_run'', JBool True), (''features_found'', JNum 1),
           (''features'', JArr [JObj [(''id'', JStr ''c1''), (''title'', JStr ''Jump'')]])] \<and>
   filter mutating (snd (splitFeatures
      \<lparr>localeCompare = (\<lambda>a b. 0), toLowerCase = (\<lambda>s. s), parseDate = (\<lambda>s. None), daysAgo = (\<lambda>n. None)\<rparr>
      \<lparr>userId = ''u'', reportToken = ''t''\<rparr>
      (\<lambda>tr c. if tr = []
         then Inr (JObj [(''deck'', JObj [(''d1'', JObj [(''title'', JStr ''Features''), (''id'', JStr ''d1'')])])])
         else Inr (JObj [(''card'', JObj
                [(''c1'', JObj [(''id'', JStr ''c1''), (''title'', JStr ''Jump''),
                                (''childCardInfo'', JObj [(''count'', JNum 0)])]),
                 (''c2'', JObj [(''id'', JStr ''c2''), (''title'', JStr ''Run''),
                                (''childCardInfo'', JObj [(''count'', JNum 2)])])])]))
      \<lparr>sf_deck = ''Features'', sf_codeDeck = ''Code'', sf_designDeck = ''Design'', sf_artDeck = None,
        sf_skipArt = None, sf_audioDeck = None, sf_skipAudio = None, sf_dryRun = Some True\<rparr> [])) = []"
proof -
  let ?rt = "\<lparr>localeCompare = (\<lambda>a b. 0), toLowerCase = (\<lambda>s. s), parseDate = (\<lambda>s. None), daysAgo = (\<lambda>n. None)\<rparr>"
  let ?tp = "(\<lambda>(tr :: call list) (c :: call). if tr = []
         then Inr (JObj [(''deck'', JObj [(''d1'', JObj [(''title'', JStr ''Features''), (''id'', JStr ''d1'')])])])
         else Inr (JObj [(''card'', JObj
                [(''c1'', JObj [(''id'', JStr ''c1''), (''title'', JStr ''Jump''),
                                (''childCardInfo'', JObj [(''count'', JNum 0)])]),
                 (''c2'', JObj [(''id'', JStr ''c2''), (''title'', JStr ''Run''),
                                (''childCardInfo'', JObj [(''count'', JNum 2)])])])]) :: error + json)"
  let ?opts = "\<lparr>sf_deck = ''Features'', sf_codeDeck = ''Code'', sf_designDeck = ''Design'', sf_artDeck = None,
        sf_skipArt = None, sf_audioDeck = None, sf_skipAudio = None, sf_dryRun = Some True\<rparr>"
  let ?lo = "\<lparr>lo_deck = Some (sf_deck ?opts), lo_status = None, lo_search = None, lo_owner = None,
              lo_sort = None, lo_staleDays = None, lo_archived = None, lo_includeStats = None\<rparr>"
  have run: "fst (listCards ?rt ?tp ?lo []) =
     Inr [(''cards'', JArr [JObj [(''id'', JStr ''c1''), (''title'', JStr ''Jump''),
                                (''childCardInfo'', JObj [(''count'', JNum 0)])],
                            JObj [(''id'', JStr ''c2''), (''title'', JStr ''Run''),
                                (''childCardInfo'', JObj [(''count'', JNum 2)])]]),
          (''stats'', JNull), (''count'', JNum 2)]"
    by (simp add: client_defs)
  have dry: "flag (sf_dryRun ?opts)" by (simp add: flag_def)
  note th = splitFeatures_dry_run [of ?opts ?rt "\<lparr>userId = ''u'', reportToken = ''t''\<rparr>" ?tp "[]"]
  have no_mut: "filter mutating (drop (length ([] :: call list))
      (snd (splitFeatures ?rt \<lparr>userId = ''u'', reportToken = ''t''\<rparr> ?tp ?opts []))) = []"
    using th dry by blast
  have res: "fst (splitFeatures ?rt \<lparr>userId = ''u'', reportToken = ''t''\<rparr> ?tp ?opts []) =
      Inr [(''ok'', JBool True), (''dry_run'', JBool True),
           (''features_found'', JNum (int (length (filter unsplit
               [JObj [(''id'', JStr ''c1''), (''title'', JStr ''Jump''),
                      (''childCardInfo'', JObj [(''count'', JNum 0)])],
                JObj [(''id'', JStr ''c2''), (''title'', JStr ''Run''),
                      (''childCardInfo'', JObj [(''count'', JNum 2)])]])))),
           (''features'', JArr (map (\<lambda>f. JObj [(''id'', get_prop f ''id''), (''title'', get_prop f ''title'')])
              (filter unsplit
               [JObj [(''id'', JStr ''c1''), (''title'', JStr ''Jump''),
                      (''childCardInfo'', JObj [(''count'', JNum 0)])],
                JObj [(''id'', JStr ''c2''), (''title'', JStr ''Run''),
                      (''childCardInfo'', JObj [(''count'', JNum 2)])]])))]"
    using th dry run by blast
  show ?thesis
    using no_mut res
    by (simp add: unsplit_def get_prop_def lookup_def truthy_def coalesce_def nullish_def)
qed

section \<open>Sorting the card list\<close>

lemma mset_insert_by: "mset (insert_by cmp x ys) = add_mset x (mset ys)"
  by (induction ys) auto

lemma mset_js_sort: "mset (js_sort cmp xs) = mset xs"
  by (induction xs) (auto simp add: js_sort_def mset_insert_by)

lemma set_insert_by: "set (insert_by cmp x ys) = insert x (set ys)"
  by (induction ys) auto

lemma sorted_insert_by:
  assumes total: "\<And>a b. cmp a b \<le> 0 \<or> cmp b a \<le> 0"
    and trans: "\<And>a b c. cmp a b \<le> 0 \<Longrightarrow> cmp b c \<le> 0 \<Longrightarrow> cmp a c \<le> 0"
  shows "sorted_wrt (\<lambda>a b. cmp a b \<le> 0) ys \<Longrightarrow> sorted_wrt (\<lambda>a b. cmp a b \<le> 0) (insert_by cmp x ys)"
proof (induction ys)
  case Nil
  then show ?case by simp
next
  case (Cons y ys)
  show ?case
  proof (cases "cmp x y \<le> 0")
    case True
    then have "\<forall>z \<in> set ys. cmp x z \<le> 0" using Cons.prems trans by auto
    with True Cons.prems show ?thesis by simp
  next
    case False
    then have "cmp y x \<le> 0" using total by blast
    with False Cons show ?thesis by (auto simp add: set_insert_by)
  qed
qed

lemma sorted_js_sort:
  assumes total: "\<And>a b. cmp a b \<le> 0 \<or> cmp b a \<le> 0"
    and trans: "\<And>a b c. cmp a b \<le> 0 \<Longrightarrow> cmp b c \<le> 0 \<Longrightarrow> cmp a c \<le> 0"
  shows "sorted_wrt (\<lambda>a b. cmp a b \<le> 0) (js_sort cmp xs)"
proof (induction xs)
  case Nil
  then show ?case by (simp add: js_sort_def)
next
  case (Cons x xs)
  have "js_sort cmp (x # xs) = insert_by cmp x (js_sort cmp xs)" by (simp add: js_sort_def)
  with Cons show ?case using sorted_insert_by [OF total trans] by simp
qed

lemma listCards_sorted_form:
  "fst (listCards rt tp opts tr) = Inr all \<Longrightarrow>
   \<exists>cs. lookup all ''cards'' = JArr (sort_cards rt (lo_sort opts) cs)"
  by (auto simp add: listCards_def Let_def lookup_def split: sum.splits prod.splits)

text \<open>
  The order the sort establishes. The sort key of a card for the requested sort field
  \<open>f\<close> is the string \<^verbatim>\<open>String(getField(card, f) ?? "")\<close>. For a locale comparison
  that is a total preorder, the sorted list is a rearrangement of the cards, in
  descending order of the keys when \<open>f\<close> is "updated" or "created" (no card is followed
  by one with a greater key) and in ascending order for every other field; this is the
  order of the cards that \<^verbatim>\<open>listCards\<close> returns when a sort field is requested.
\<close>

theorem listCards_sort_order:
  "(\<forall>a b. localeCompare rt a b \<le> 0 \<or> localeCompare rt b a \<le> 0) \<and>
   (\<forall>a b c. localeCompare rt a b \<le> 0 \<and> localeCompare rt b c \<le> 0 \<longrightarrow> localeCompare rt a c \<le> 0) \<and>
   lo_sort opts = Some f \<and> f \<noteq> [] \<longrightarrow>
     mset (sort_cards rt (Some f) cards) = mset cards \<and>
     sorted_wrt (\<lambda>a b. if f = ''updated'' \<or> f = ''created''
                       then localeCompare rt (sort_key f b) (sort_key f a) \<le> 0
                       else localeCompare rt (sort_key f a) (sort_key f b) \<le> 0)
       (sort_cards rt (Some f) cards) \<and>
     (\<forall>res. fst (listCards rt tp opts tr) = Inr res \<longrightarrow>
        (\<exists>out. lookup res ''cards'' = JArr out \<and>
           sorted_wrt (\<lambda>a b. if f = ''updated'' \<or> f = ''created''
                             then localeCompare rt (sort_key f b) (sort_key f a) \<le> 0
                             else localeCompare rt (sort_key f a) (sort_key f b) \<le> 0) out))"
proof (intro impI)
  assume h: "(\<forall>a b. localeCompare rt a b \<le> 0 \<or> localeCompare rt b a \<le> 0) \<and>
   (\<forall>a b c. localeCompare rt a b \<le> 0 \<and> localeCompare rt b c \<le> 0 \<longrightarrow> localeCompare rt a c \<le> 0) \<and>
   lo_sort opts = Some f \<and> f \<noteq> []"
  let ?P = "\<lambda>a b. if f = ''updated'' \<or> f = ''created''
                       then localeCompare rt (sort_key f b) (sort_key f a) \<le> 0
                       else localeCompare rt (sort_key f a) (sort_key f b) \<le> 0"
  have P: "?P = (\<lambda>a b. sort_compare rt f a b \<le> 0)"
    by (simp add: sort_compare_def Let_def fun_eq_iff)
  have t: "\<And>a b. localeCompare rt a b \<le> 0 \<or> localeCompare rt b a \<le> 0"
    using h by blast
  have tr: "\<And>a b c. localeCompare rt a b \<le> 0 \<Longrightarrow> localeCompare rt b c \<le> 0 \<Longrightarrow> localeCompare rt a c \<le> 0"
    using h by blast
  have f: "lo_sort opts = Some f" "f \<noteq> []" using h by blast+
  have total: "sort_compare rt f a b \<le> 0 \<or> sort_compare rt f b a \<le> 0" for a b
    unfolding sort_compare_def Let_def
    using t [of "sort_key f a" "sort_key f b"] by auto
  have trans: "sort_compare rt f a b \<le> 0 \<Longrightarrow> sort_compare rt f b c \<le> 0 \<Longrightarrow> sort_compare rt f a c \<le> 0" for a b c
    unfolding sort_compare_def Let_def
    using tr [of "sort_key f a" "sort_key f b" "sort_key f c"]
          tr [of "sort_key f c" "sort_key f b" "sort_key f a"]
    by (auto split: if_splits)
  have sorted: "\<And>cs. sorted_wrt ?P (sort_cards rt (Some f) cs)"
    unfolding P using f(2) sorted_js_sort [of "sort_compare rt f", OF total trans]
    by (simp add: sort_cards_def)
  have perm: "mset (sort_cards rt (Some f) cards) = mset cards"
    using f(2) by (simp add: sort_cards_def mset_js_sort)
  have res: "\<forall>res. fst (listCards rt tp opts tr) = Inr res \<longrightarrow>
        (\<exists>out. lookup res ''cards'' = JArr out \<and> sorted_wrt ?P out)"
  proof (intro allI impI)
    fix res assume "fst (listCards rt tp opts tr) = Inr res"
    then obtain cs where "lookup res ''cards'' = JArr (sort_cards rt (lo_sort opts) cs)"
      using listCards_sorted_form by blast
    with f(1) sorted [of cs] show "\<exists>out. lookup res ''cards'' = JArr out \<and> sorted_wrt ?P out"
      by simp
  qed
  from perm sorted [of cards] res
  show "mset (sort_cards rt (Some f) cards) = mset cards \<and>
     sorted_wrt ?P (sort_cards rt (Some f) cards) \<and>
     (\<forall>res. fst (listCards rt tp opts tr) = Inr res \<longrightarrow>
        (\<exists>out. lookup res ''cards'' = JArr out \<and> sorted_wrt ?P out))"
    by blast
qed


theorem listCards_sort_order_witness:
  "sort_cards
     \<lparr>localeCompare = (\<lambda>a b. if a < b then - 1 else if a = b then 0 else 1),
      toLowerCase = (\<lambda>s. s), parseDate = (\<lambda>s. None), daysAgo = (\<lambda>n. None)\<rparr>
     (Some ''updated'')
     [JObj [(''title'', JStr ''b''), (''updated'', JStr ''2024-01-01'')],
      JObj [(''title'', JStr ''a''), (''updated'', JStr ''2024-06-01'')]]
   = [JObj [(''title'', JStr ''a''), (''updated'', JStr ''2024-06-01'')],
      JObj [(''title'', JStr ''b''), (''updated'', JStr ''2024-01-01'')]] \<and>
   sorted_wrt (\<lambda>a b. (if sort_key ''updated'' b < sort_key ''updated'' a then - 1
                        else if sort_key ''updated'' b = sort_key ''updated'' a then 0 else 1) \<le> (0 :: int))
     (sort_cards
       \<lparr>localeCompare = (\<lambda>a b. if a < b then - 1 else if a = b then 0 else 1),
        toLowerCase = (\<lambda>s. s), parseDate = (\<lambda>s. None), daysAgo = (\<lambda>n. None)\<rparr>
       (Some ''updated'')
       [JObj [(''title'', JStr ''b''), (''updated'', JStr ''2024-01-01'')],
        JObj [(''title'', JStr ''a''), (''updated'', JStr ''2024-06-01'')]])"
proof -
  let ?rt = "\<lparr>localeCompare = (\<lambda>(a :: string) b. if a < b then - 1 else if a = b then 0 else (1 :: int)),
      toLowerCase = (\<lambda>s. s), parseDate = (\<lambda>s. None), daysAgo = (\<lambda>n. None)\<rparr>"
  let ?cards = "[JObj [(''title'', JStr ''b''), (''updated'', JStr ''2024-01-01'')],
      JObj [(''title'', JStr ''a''), (''updated'', JStr ''2024-06-01'')]]"
  let ?opts = "\<lparr>lo_deck = None, lo_status = None, lo_search = None, lo_owner = None,
      lo_sort = Some ''updated'', lo_staleDays = None, lo_archived = None, lo_includeStats = None\<rparr>"
  have total: "\<forall>a b. localeCompare ?rt a b \<le> 0 \<or> localeCompare ?rt b a \<le> 0"
    by auto
  have trans: "\<forall>a b c. localeCompare ?rt a b \<le> 0 \<and> localeCompare ?rt b c \<le> 0 \<longrightarrow> localeCompare ?rt a c \<le> 0"
    by (auto split: if_splits)
  have srt: "lo_sort ?opts = Some ''updated'' \<and> ''updated'' \<noteq> []" by simp
  have run: "sort_cards ?rt (Some ''updated'') ?cards =
      [JObj [(''title'', JStr ''a''), (''updated'', JStr ''2024-06-01'')],
       JObj [(''title'', JStr ''b''), (''updated'', JStr ''2024-01-01'')]]"
    by (simp add: sort_cards_def js_sort_def sort_compare_def sort_key_def getField_def has_prop_def
          get_prop_def lookup_def coalesce_def nullish_def Let_def)
  from listCards_sort_order [of ?rt ?opts "''updated''" ?cards "\<lambda>tr c. Inr JNull" "[]"] total trans srt
  have "sorted_wrt (\<lambda>a b. if ''updated'' = ''updated'' \<or> ''updated'' = ''created''
                       then localeCompare ?rt (sort_key ''updated'' b) (sort_key ''updated'' a) \<le> 0
                       else localeCompare ?rt (sort_key ''updated'' a) (sort_key ''updated'' b) \<le> 0)
       (sort_cards ?rt (Some ''updated'') ?cards)"
    by blast
  then have "sorted_wrt (\<lambda>a b. (if sort_key ''updated'' b < sort_key ''updated'' a then - 1
                        else if sort_key ''updated'' b = sort_key ''updated'' a then 0 else 1) \<le> (0 :: int))
     (sort_cards ?rt (Some ''updated'') ?cards)"
    by simp
  with run show ?thesis by simp
qed

text \<open>
  Claim C6. Sorting by "updated" does not put the most recent card first. The key is
  read from the property named by the sort field, and the cards of the card query carry
  their timestamps as \<open>lastUpdatedAt\<close> and \<open>createdAt\<close> (\<open>cardFields\<close>; the staleness
  filter reads \<open>lastUpdatedAt\<close>), so the key of every card is the empty string and the
  stable sort leaves the list as it was: the card updated in January stays before the
  card updated in June.
\<close>

theorem listCards_sort_updated_unchanged:
  "sort_key ''updated'' (JObj [(''title'', JStr ''Old''), (''lastUpdatedAt'', JStr ''2024-01-01T00:00:00.000Z'')]) = [] \<and>
   sort_key ''updated'' (JObj [(''title'', JStr ''New''), (''lastUpdatedAt'', JStr ''2024-06-01T00:00:00.000Z'')]) = [] \<and>
   fst (listCards
      \<lparr>localeCompare = (\<lambda>a b. if a < b then - 1 else if a = b then 0 else 1),
        toLowerCase = (\<lambda>s. s), parseDate = (\<lambda>s. None), daysAgo = (\<lambda>n. None)\<rparr>
      (\<lambda>tr c. Inr (JObj [(''card'', JObj
         [(''c1'', JObj [(''title'', JStr ''Old''), (''lastUpdatedAt'', JStr ''2024-01-01T00:00:00.000Z'')]),
          (''c2'', JObj [(''title'', JStr ''New''), (''lastUpdatedAt'', JStr ''2024-06-01T00:00:00.000Z'')])])]))
      \<lparr>lo_deck = None, lo_status = None, lo_search = None, lo_owner = None,
        lo_sort = Some ''updated'', lo_staleDays = None, lo_archived = None, lo_includeStats = None\<rparr> [])
    = Inr [(''cards'', JArr
             [JObj [(''title'', JStr ''Old''), (''lastUpdatedAt'', JStr ''2024-01-01T00:00:00.000Z'')],
              JObj [(''title'', JStr ''New''), (''lastUpdatedAt'', JStr ''2024-06-01T00:00:00.000Z'')]]),
           (''stats'', JNull), (''count'', JNum 2)]"
  by (simp add: client_defs js_sort_def sort_compare_def sort_key_def getField_def has_prop_def)

section \<open>The status filter of the card list\<close>

lemma parseMultiValue_invalid:
  "v \<in> set (map trim (split CHR '','' st)) \<Longrightarrow> v \<notin> set allowed \<Longrightarrow>
   \<exists>msg. parseMultiValue st allowed label = Inl (CliError msg)"
  by (auto simp add: parseMultiValue_def Let_def find_None_iff split: option.splits)

lemma status_filter_invalid:
  "lo_status opts = Some st \<Longrightarrow> st \<noteq> [] \<Longrightarrow>
   v \<in> set (map trim (split CHR '','' st)) \<Longrightarrow> v \<notin> set VALID_STATUSES \<Longrightarrow>
   \<exists>msg. status_filter opts cq = Inl (CliError msg)"
  using parseMultiValue_invalid [of v st VALID_STATUSES "''status''"]
  by (auto simp add: status_filter_def)

lemma parse_started_blocked:
  "parseMultiValue ''started,blocked'' VALID_STATUSES ''status'' = Inr [''started'', ''blocked'']"
  by (simp add: parseMultiValue_def trim_def is_ws_def VALID_STATUSES_def)


lemma listCards_status_only:
  assumes st: "status_filter opts [(''visibility'', JStr (if flag (lo_archived opts) then ''archived'' else ''default''))]
                 = Inr (cq, Some allowed)"
    and nd: "\<not> given (lo_deck opts)" and ns: "\<not> given (lo_search opts)" and no: "\<not> given (lo_owner opts)"
    and nst: "lo_staleDays opts = None \<or> lo_staleDays opts = Some 0" and nsrt: "\<not> given (lo_sort opts)"
    and q: "fst (query tp (cards_query opts cq) tr) = Inr result"
  shows "\<exists>stats. fst (listCards rt tp opts tr) =
           Inr [(''cards'', JArr (filter_status (Some allowed) (extractCards result))), (''stats'', stats),
                (''count'', JNum (int (length (filter_status (Some allowed) (extractCards result)))))]"
proof -
  have d: "deck_filter rt tp opts cq tr = (Inr cq, tr)"
    using nd by (simp add: deck_filter_def given_def split: option.splits)
  obtain tr2 where q2: "query tp (cards_query opts cq) tr = (Inr result, tr2)"
    using q by (metis prod.collapse)
  have f2: "filter_search rt (lo_search opts) cs = cs" for cs
    using ns by (simp add: filter_search_def given_def split: option.splits)
  have f3: "filter_owner rt (lo_owner opts) cs = cs" for cs
    using no by (simp add: filter_owner_def given_def split: option.splits)
  have f4: "filter_stale rt (lo_staleDays opts) cs = cs" for cs
    using nst by (auto simp add: filter_stale_def)
  have f5: "sort_cards rt (lo_sort opts) cs = cs" for cs
    using nsrt by (simp add: sort_cards_def given_def split: option.splits)
  show ?thesis
    using st d q2 by (simp add: listCards_def Let_def f2 f3 f4 f5)
qed

text \<open>The status option is read under \<^verbatim>\<open>if (options.status)\<close>: an empty string is no filter.\<close>

lemma status_filter_empty:
  "status_filter (opts\<lparr>lo_status := Some []\<rparr>) cq = Inr (cq, None)"
  "status_filter (opts\<lparr>lo_status := None\<rparr>) cq = Inr (cq, None)"
  by (simp_all add: status_filter_def)

lemma deck_filter_status:
  "deck_filter rt tp (opts\<lparr>lo_status := x\<rparr>) cq tr = deck_filter rt tp opts cq tr"
  by (simp add: deck_filter_def)

lemma cards_query_status:
  "cards_query (opts\<lparr>lo_status := x\<rparr>) cq = cards_query opts cq"
  by (simp add: cards_query_def cardFields_def)

lemma listCards_empty_status:
  "listCards rt tp (opts\<lparr>lo_status := Some []\<rparr>) tr = listCards rt tp (opts\<lparr>lo_status := None\<rparr>) tr"
  by (simp add: listCards_def status_filter_empty deck_filter_status cards_query_status Let_def
        split: prod.splits sum.splits)

text \<open>
  Claim C5. With the status filter "started,blocked" and no deck, search, owner,
  staleness or sort option, when the card query returns four cards with statuses
  not_started, started, blocked and done, \<^verbatim>\<open>listCards\<close> returns the second and the
  third card, in that order, and the count 2. When the status filter is a non-empty
  string and one of its comma-separated values, trimmed, is outside \<open>VALID_STATUSES\<close>,
  \<^verbatim>\<open>listCards\<close> throws a \<open>CliError\<close> and makes no call at all. An empty status
  string is not validated: \<^verbatim>\<open>listCards\<close> behaves as it does without a status filter.
\<close>

theorem listCards_status_filter:
  "(lo_status opts = Some ''started,blocked'' \<and>
    \<not> given (lo_deck opts) \<and> \<not> given (lo_search opts) \<and> \<not> given (lo_owner opts) \<and>
    (lo_staleDays opts = None \<or> lo_staleDays opts = Some 0) \<and> \<not> given (lo_sort opts) \<and>
    fst (query tp (cards_query opts
           [(''visibility'', JStr (if flag (lo_archived opts) then ''archived'' else ''default''))]) tr)
      = Inr result \<and>
    lookup result ''card'' = JObj [(i1, c1), (i2, c2), (i3, c3), (i4, c4)] \<and>
    is_object c1 \<and> is_object c2 \<and> is_object c3 \<and> is_object c4 \<and>
    get_prop c1 ''status'' = JStr ''not_started'' \<and> get_prop c2 ''status'' = JStr ''started'' \<and>
    get_prop c3 ''status'' = JStr ''blocked'' \<and> get_prop c4 ''status'' = JStr ''done''
    \<longrightarrow>
    (\<exists>stats. fst (listCards rt tp opts tr) =
       Inr [(''cards'', JArr [c2, c3]), (''stats'', stats), (''count'', JNum 2)])) \<and>
   (lo_status opts' = Some st \<and> st \<noteq> [] \<and>
    v \<in> set (map trim (split CHR '','' st)) \<and> v \<notin> set VALID_STATUSES
    \<longrightarrow>
    (\<exists>msg. listCards rt' tp' opts' tr' = (Inl (CliError msg), tr'))) \<and>
   listCards rt'' tp'' (opts''\<lparr>lo_status := Some []\<rparr>) tr'' =
     listCards rt'' tp'' (opts''\<lparr>lo_status := None\<rparr>) tr''"
proof (intro conjI impI)
  show "listCards rt'' tp'' (opts''\<lparr>lo_status := Some []\<rparr>) tr'' =
     listCards rt'' tp'' (opts''\<lparr>lo_status := None\<rparr>) tr''"
    by (rule listCards_empty_status)
next
  assume h: "lo_status opts = Some ''started,blocked'' \<and>
    \<not> given (lo_deck opts) \<and> \<not> given (lo_search opts) \<and> \<not> given (lo_owner opts) \<and>
    (lo_staleDays opts = None \<or> lo_staleDays opts = Some 0) \<and> \<not> given (lo_sort opts) \<and>
    fst (query tp (cards_query opts
           [(''visibility'', JStr (if flag (lo_archived opts) then ''archived'' else ''default''))]) tr)
      = Inr result \<and>
    lookup result ''card'' = JObj [(i1, c1), (i2, c2), (i3, c3), (i4, c4)] \<and>
    is_object c1 \<and> is_object c2 \<and> is_object c3 \<and> is_object c4 \<and>
    get_prop c1 ''status'' = JStr ''not_started'' \<and> get_prop c2 ''status'' = JStr ''started'' \<and>
    get_prop c3 ''status'' = JStr ''blocked'' \<and> get_prop c4 ''status'' = JStr ''done''"
  let ?cq = "[(''visibility'', JStr (if flag (lo_archived opts) then ''archived'' else ''default''))]"
  have st: "status_filter opts ?cq = Inr (?cq, Some [''started'', ''blocked''])"
    using h by (simp add: status_filter_def parse_started_blocked)
  have cards: "extractCards result = [c1, c2, c3, c4]"
    using h by (simp add: extractCards_def extractEntityMap_def)
  have flt: "filter_status (Some [''started'', ''blocked'']) [c1, c2, c3, c4] = [c2, c3]"
    using h by (simp add: filter_status_def coalesce_def nullish_def)
  from listCards_status_only [OF st, of tp tr result rt] h
  show "\<exists>stats. fst (listCards rt tp opts tr) =
       Inr [(''cards'', JArr [c2, c3]), (''stats'', stats), (''count'', JNum 2)]"
    by (simp add: cards flt)
next
  assume h: "lo_status opts' = Some st \<and> st \<noteq> [] \<and>
    v \<in> set (map trim (split CHR '','' st)) \<and> v \<notin> set VALID_STATUSES"
  then obtain msg where "status_filter opts'
       [(''visibility'', JStr (if flag (lo_archived opts') then ''archived'' else ''default''))]
       = Inl (CliError msg)"
    using status_filter_invalid [of opts' st v] by blast
  then show "\<exists>msg. listCards rt' tp' opts' tr' = (Inl (CliError msg), tr')"
    by (simp add: listCards_def)
qed

theorem listCards_status_filter_witness:
  "(\<exists>stats. fst (listCards
      \<lparr>localeCompare = (\<lambda>a b. 0), toLowerCase = (\<lambda>s. s), parseDate = (\<lambda>s. None), daysAgo = (\<lambda>n. None)\<rparr>
      (\<lambda>tr c. Inr (JObj [(''card'', JObj
         [(''a'', JObj [(''title'', JStr ''A''), (''status'', JStr ''not_started'')]),
          (''b'', JObj [(''title'', JStr ''B''), (''status'', JStr ''started'')]),
          (''c'', JObj [(''title'', JStr ''C''), (''status'', JStr ''blocked'')]),
          (''d'', JObj [(''title'', JStr ''D''), (''status'', JStr ''done'')])])]))
      \<lparr>lo_deck = None, lo_status = Some ''started,blocked'', lo_search = None, lo_owner = None,
        lo_sort = None, lo_staleDays = None, lo_archived = None, lo_includeStats = None\<rparr> [])
    = Inr [(''cards'', JArr [JObj [(''title'', JStr ''B''), (''status'', JStr ''started'')],
                             JObj [(''title'', JStr ''C''), (''status'', JStr ''blocked'')]]),
           (''stats'', stats), (''count'', JNum 2)]) \<and>
   (\<exists>msg. listCards
      \<lparr>localeCompare = (\<lambda>a b. 0), toLowerCase = (\<lambda>s. s), parseDate = (\<lambda>s. None), daysAgo = (\<lambda>n. None)\<rparr>
      (\<lambda>tr c. Inr (JObj []))
      \<lparr>lo_deck = None, lo_status = Some ''started,paused'', lo_search = None, lo_owner = None,
        lo_sort = None, lo_staleDays = None, lo_archived = None, lo_includeStats = None\<rparr> []
    = (Inl (CliError msg), []))"
proof -
  let ?rt = "\<lparr>localeCompare = (\<lambda>a b. 0), toLowerCase = (\<lambda>s. s), parseDate = (\<lambda>s. None), daysAgo = (\<lambda>n. None)\<rparr>"
  let ?tp = "\<lambda>(tr :: call list) (c :: call). (Inr (JObj [(''card'', JObj
         [(''a'', JObj [(''title'', JStr ''A''), (''status'', JStr ''not_started'')]),
          (''b'', JObj [(''title'', JStr ''B''), (''status'', JStr ''started'')]),
          (''c'', JObj [(''title'', JStr ''C''), (''status'', JStr ''blocked'')]),
          (''d'', JObj [(''title'', JStr ''D''), (''status'', JStr ''done'')])])]) :: error + json)"
  let ?tp' = "\<lambda>(tr :: call list) (c :: call). (Inr (JObj []) :: error + json)"
  let ?opts = "\<lparr>lo_deck = None, lo_status = Some ''started,blocked'', lo_search = None, lo_owner = None,
        lo_sort = None, lo_staleDays = None, lo_archived = None, lo_includeStats = None\<rparr>"
  let ?opts' = "\<lparr>lo_deck = None, lo_status = Some ''started,paused'', lo_search = None, lo_owner = None,
        lo_sort = None, lo_staleDays = None, lo_archived = None, lo_includeStats = None\<rparr>"
  note th = listCards_status_filter [of ?opts ?tp "[]"
      "[(''card'', JObj
         [(''a'', JObj [(''title'', JStr ''A''), (''status'', JStr ''not_started'')]),
          (''b'', JObj [(''title'', JStr ''B''), (''status'', JStr ''started'')]),
          (''c'', JObj [(''title'', JStr ''C''), (''status'', JStr ''blocked'')]),
          (''d'', JObj [(''title'', JStr ''D''), (''status'', JStr ''done'')])])]"
      "''a''" "JObj [(''title'', JStr ''A''), (''status'', JStr ''not_started'')]"
      "''b''" "JObj [(''title'', JStr ''B''), (''status'', JStr ''started'')]"
      "''c''" "JObj [(''title'', JStr ''C''), (''status'', JStr ''blocked'')]"
      "''d''" "JObj [(''title'', JStr ''D''), (''status'', JStr ''done'')]"
      ?rt ?opts' "''started,paused''" "''paused''" ?rt ?tp' "[]"]
  have a: "\<exists>stats. fst (listCards ?rt ?tp ?opts [])
    = Inr [(''cards'', JArr [JObj [(''title'', JStr ''B''), (''status'', JStr ''started'')],
                             JObj [(''title'', JStr ''C''), (''status'', JStr ''blocked'')]]),
           (''stats'', stats), (''count'', JNum 2)]"
    by (rule th [THEN conjunct1, THEN mp])
       (simp add: given_def query_def sessionRequest_def expectObject_def lookup_def is_object_def
          get_prop_def)
  have b: "\<exists>msg. listCards ?rt ?tp' ?opts' [] = (Inl (CliError msg), [])"
    by (rule th [THEN conjunct2, THEN conjunct1, THEN mp])
       (simp add: trim_def is_ws_def VALID_STATUSES_def)
  from a b show ?thesis by (rule conjI)
qed

text \<open>
  The empty string is outside the enumeration, and it is the one value the split of
  an empty filter gives; yet with it the listing throws nothing and issues the card
  query.
\<close>

theorem listCards_empty_status_counterexample:
  "listCards
      \<lparr>localeCompare = (\<lambda>a b. 0), toLowerCase = (\<lambda>s. s), parseDate = (\<lambda>s. None), daysAgo = (\<lambda>n. None)\<rparr>
      (\<lambda>tr c. Inr (JObj [(''card'', JObj
         [(''a'', JObj [(''title'', JStr ''A''), (''status'', JStr ''done'')])])]))
      \<lparr>lo_deck = None, lo_status = Some '''', lo_search = None, lo_owner = None,
        lo_sort = None, lo_staleDays = None, lo_archived = None, lo_includeStats = None\<rparr> []
    = (Inr [(''cards'', JArr [JObj [(''title'', JStr ''A''), (''status'', JStr ''done'')]]),
            (''stats'', JNull), (''count'', JNum 1)],
       [Query (cards_query
          \<lparr>lo_deck = None, lo_status = Some '''', lo_search = None, lo_owner = None,
            lo_sort = None, lo_staleDays = None, lo_archived = None, lo_includeStats = None\<rparr>
          [(''visibility'', JStr ''default'')])]) \<and>
   '''' \<in> set (map trim (split CHR '','' '''')) \<and> '''' \<notin> set VALID_STATUSES"
  by (simp add: listCards_def status_filter_def deck_filter_def given_def flag_def query_def
        sessionRequest_def expectObject_def extractCards_def extractEntityMap_def lookup_def
        is_object_def get_prop_def filter_status_def filter_search_def filter_owner_def
        filter_stale_def sort_cards_def trim_def VALID_STATUSES_def Let_def
        split: option.splits)

section \<open>The retry policy of the HTTP request\<close>

declare request_loop.simps [simp del]

lemma attempts_append: "attempts (xs @ ys) = attempts xs @ attempts ys"
  by (induction xs rule: attempts.induct) auto

lemma request_loop_stop:
  "int a < M \<Longrightarrow> \<not> (idem \<and> int a < M - 1 \<and> retry_cause (fetch a)) \<Longrightarrow>
   \<exists>res. request_loop cfg fetch parse idem M T a tr = (res, tr @ [Fetch a])"
  by (subst request_loop.simps)
     (auto simp add: Let_def retry_cause_def split: fetched.splits sum.splits option.splits)

lemma request_loop_step:
  "idem \<Longrightarrow> int a < M - 1 \<Longrightarrow> retry_cause (fetch a) \<Longrightarrow>
   \<exists>d. request_loop cfg fetch parse idem M T a tr =
        request_loop cfg fetch parse idem M T (Suc a) (tr @ [Fetch a, Sleep d])"
  by (subst request_loop.simps)
     (auto simp add: Let_def retry_cause_def split: fetched.splits sum.splits option.splits)

lemma request_loop_attempts:
  "int a < M \<Longrightarrow>
   \<exists>n. 1 \<le> n \<and> int (a + n) \<le> M \<and>
       attempts (snd (request_loop cfg fetch parse idem M T a tr)) = attempts tr @ [a ..< a + n] \<and>
       (\<forall>i. a \<le> i \<and> Suc i < a + n \<longrightarrow> idem \<and> int (Suc i) < M \<and> retry_cause (fetch i))"
proof (induction k \<equiv> "nat (M - int a)" arbitrary: a tr)
  case 0
  then show ?case by simp
next
  case (Suc k)
  show ?case
  proof (cases "idem \<and> int a < M - 1 \<and> retry_cause (fetch a)")
    case False
    then obtain res where "request_loop cfg fetch parse idem M T a tr = (res, tr @ [Fetch a])"
      using request_loop_stop [OF Suc.prems] by blast
    then have "attempts (snd (request_loop cfg fetch parse idem M T a tr)) = attempts tr @ [a ..< a + 1]"
      by (simp add: attempts_append)
    moreover have "int (a + 1) \<le> M" using Suc.prems by simp
    ultimately show ?thesis
      by (intro exI [of _ 1]) auto
  next
    case True
    then obtain d where step: "request_loop cfg fetch parse idem M T a tr =
        request_loop cfg fetch parse idem M T (Suc a) (tr @ [Fetch a, Sleep d])"
      using request_loop_step by blast
    have k: "k = nat (M - int (Suc a))" using Suc.hyps(2) by simp
    have lt: "int (Suc a) < M" using True by simp
    from Suc.hyps(1) [OF k lt, of "tr @ [Fetch a, Sleep d]"]
    obtain n where n: "1 \<le> n" "int (Suc a + n) \<le> M"
      "attempts (snd (request_loop cfg fetch parse idem M T (Suc a) (tr @ [Fetch a, Sleep d])))
         = attempts (tr @ [Fetch a, Sleep d]) @ [Suc a ..< Suc a + n]"
      "\<forall>i. Suc a \<le> i \<and> Suc i < Suc a + n \<longrightarrow> idem \<and> int (Suc i) < M \<and> retry_cause (fetch i)"
      by blast
    have "attempts (snd (request_loop cfg fetch parse idem M T a tr)) = attempts tr @ [a ..< a + Suc n]"
      using step n(3) by (simp add: attempts_append upt_conv_Cons)
    moreover have "\<forall>i. a \<le> i \<and> Suc i < a + Suc n \<longrightarrow> idem \<and> int (Suc i) < M \<and> retry_cause (fetch i)"
    proof (intro allI impI)
      fix i assume i: "a \<le> i \<and> Suc i < a + Suc n"
      show "idem \<and> int (Suc i) < M \<and> retry_cause (fetch i)"
      proof (cases "i = a")
        case True
        with \<open>idem \<and> int a < M - 1 \<and> retry_cause (fetch a)\<close> show ?thesis by simp
      next
        case False
        with i have "Suc a \<le> i \<and> Suc i < Suc a + n" by simp
        with n(4) show ?thesis by blast
      qed
    qed
    moreover have "int (a + Suc n) \<le> M" using n(2) by simp
    ultimately show ?thesis
      by (intro exI [of _ "Suc n"]) auto
  qed
qed

lemma httpRequest_attempts:
  "\<exists>n. 1 \<le> n \<and> attempts (snd (httpRequest cfg fetch parse idem)) = [0 ..< n] \<and>
       int n \<le> 1 + max 0 (httpMaxRetries cfg) \<and>
       (\<not> idem \<longrightarrow> n = 1) \<and>
       (\<forall>i. Suc i < n \<longrightarrow> idem \<and> int (Suc i) \<le> httpMaxRetries cfg \<and> retry_cause (fetch i))"
proof -
  let ?M = "1 + max 0 (if idem then httpMaxRetries cfg else 0)"
  let ?T = "max 1000 (httpTimeout cfg)"
  have "int 0 < ?M" by simp
  from request_loop_attempts [OF this, of cfg fetch parse idem ?T "[]"]
  obtain n where n: "1 \<le> n" "int (0 + n) \<le> ?M"
      "attempts (snd (request_loop cfg fetch parse idem ?M ?T 0 [])) = attempts [] @ [0 ..< 0 + n]"
      "\<forall>i. 0 \<le> i \<and> Suc i < 0 + n \<longrightarrow> idem \<and> int (Suc i) < ?M \<and> retry_cause (fetch i)"
    by blast
  have a: "attempts (snd (httpRequest cfg fetch parse idem)) = [0 ..< n]"
    using n(3) by (simp add: httpRequest_def Let_def)
  have b: "int n \<le> 1 + max 0 (httpMaxRetries cfg)" using n(2) by (simp split: if_splits)
  have c: "\<not> idem \<longrightarrow> n = 1" using n(1,2) by auto
  have d: "\<forall>i. Suc i < n \<longrightarrow> idem \<and> int (Suc i) \<le> httpMaxRetries cfg \<and> retry_cause (fetch i)"
  proof (intro allI impI)
    fix i assume "Suc i < n"
    with n(4) [rule_format, of i]
    have i1: "idem" and i2: "int (Suc i) < 1 + max 0 (if idem then httpMaxRetries cfg else 0)"
      and i3: "retry_cause (fetch i)"
      by auto
    from i1 i2 have "int (Suc i) < 1 + max 0 (httpMaxRetries cfg)" by simp
    then have "int (Suc i) \<le> httpMaxRetries cfg" by (cases "0 \<le> httpMaxRetries cfg") simp_all
    with i1 i3 show "idem \<and> int (Suc i) \<le> httpMaxRetries cfg \<and> retry_cause (fetch i)" by blast
  qed
  from n(1) a b c d show ?thesis by blast
qed

lemma httpRequest_503_503_200:
  assumes "httpMaxRetries cfg = 2"
    and "fetch 0 = Responded r0" "status r0 = 503"
    and "fetch 1 = Responded r1" "status r1 = 503"
    and "fetch 2 = Responded r2" "status r2 = 200" "body r2 = Inr raw"
    and "int (length raw) \<le> httpMaxResponseBytes cfg" "parse raw = Some j"
  shows "\<exists>d0 d1. httpRequest cfg fetch parse True =
           (Inr j, [Fetch 0, Sleep d0, Fetch 1, Sleep d1, Fetch 2])"
  using assms
  by (simp add: httpRequest_def Let_def request_loop.simps [of _ _ _ _ _ _ 0]
        request_loop.simps [of _ _ _ _ _ _ "Suc 0"] request_loop.simps [of _ _ _ _ _ _ "Suc (Suc 0)"]
        ok_def RETRYABLE_HTTP_CODES_def numeral_2_eq_2 split: option.splits)


text \<open>
  Claim C1. A request makes the attempts \<open>0, \<dots>, n - 1\<close> with \<open>1 \<le> n\<close>; a call
  that is not idempotent makes exactly one. Attempt \<open>i\<close> is followed by another only
  when the call is idempotent, the retry budget allows one more (\<open>i + 1\<close> is at most the
  configured number of retries), and attempt \<open>i\<close> failed with a status among 429, 502,
  503 and 504, with a timeout, or with a connection error (a rejected \<^verbatim>\<open>fetch\<close>, or
  a body that cannot be read). So there are at most 1 + max(0, the configured retries)
  attempts: a negative number of retries counts as 0, the first attempt being made
  whatever the configuration. An idempotent call with 2
  retries that receives 503, 503 and then 200 with a body of accepted size that parses
  returns the parsed body at the third attempt, having slept after the first and after
  the second.
\<close>

theorem httpRequest_retry_policy:
  "(\<exists>n. 1 \<le> n \<and> attempts (snd (httpRequest cfg fetch parse idempotent)) = [0 ..< n] \<and>
        int n \<le> 1 + max 0 (httpMaxRetries cfg) \<and>
        (0 \<le> httpMaxRetries cfg \<longrightarrow> int n \<le> 1 + httpMaxRetries cfg) \<and>
        (\<not> idempotent \<longrightarrow> n = 1) \<and>
        (\<forall>i. Suc i < n \<longrightarrow>
           idempotent \<and> int (Suc i) \<le> httpMaxRetries cfg \<and>
           (case fetch i of
              Responded r \<Rightarrow> (\<not> ok r \<and> status r \<in> {429, 502, 503, 504}) \<or> (ok r \<and> isl (body r))
            | Aborted \<Rightarrow> True
            | Failed m \<Rightarrow> True))) \<and>
   (httpMaxRetries cfg' = 2 \<and>
    fetch' 0 = Responded r0 \<and> status r0 = 503 \<and>
    fetch' 1 = Responded r1 \<and> status r1 = 503 \<and>
    fetch' 2 = Responded r2 \<and> status r2 = 200 \<and> body r2 = Inr raw \<and>
    int (length raw) \<le> httpMaxResponseBytes cfg' \<and> parse' raw = Some j
    \<longrightarrow>
    fst (httpRequest cfg' fetch' parse' True) = Inr j \<and>
    attempts (snd (httpRequest cfg' fetch' parse' True)) = [0, 1, 2] \<and>
    (\<exists>d0 d1. snd (httpRequest cfg' fetch' parse' True) = [Fetch 0, Sleep d0, Fetch 1, Sleep d1, Fetch 2]))"
proof (intro conjI impI)
  obtain n where n: "1 \<le> n" "attempts (snd (httpRequest cfg fetch parse idempotent)) = [0 ..< n]"
      "int n \<le> 1 + max 0 (httpMaxRetries cfg)" "\<not> idempotent \<longrightarrow> n = 1"
      "\<forall>i. Suc i < n \<longrightarrow> idempotent \<and> int (Suc i) \<le> httpMaxRetries cfg \<and> retry_cause (fetch i)"
    using httpRequest_attempts [of cfg fetch parse idempotent] by blast
  have "\<forall>i. Suc i < n \<longrightarrow>
           idempotent \<and> int (Suc i) \<le> httpMaxRetries cfg \<and>
           (case fetch i of
              Responded r \<Rightarrow> (\<not> ok r \<and> status r \<in> {429, 502, 503, 504}) \<or> (ok r \<and> isl (body r))
            | Aborted \<Rightarrow> True
            | Failed m \<Rightarrow> True)"
  proof (intro allI impI)
    fix i assume "Suc i < n"
    with n(5) have c: "idempotent" "int (Suc i) \<le> httpMaxRetries cfg" "retry_cause (fetch i)"
      by blast+
    from c(3) have "(case fetch i of
              Responded r \<Rightarrow> (\<not> ok r \<and> status r \<in> {429, 502, 503, 504}) \<or> (ok r \<and> isl (body r))
            | Aborted \<Rightarrow> True
            | Failed m \<Rightarrow> True)"
      by (simp add: retry_cause_def RETRYABLE_HTTP_CODES_def split: fetched.splits)
    with c(1,2) show "idempotent \<and> int (Suc i) \<le> httpMaxRetries cfg \<and>
           (case fetch i of
              Responded r \<Rightarrow> (\<not> ok r \<and> status r \<in> {429, 502, 503, 504}) \<or> (ok r \<and> isl (body r))
            | Aborted \<Rightarrow> True
            | Failed m \<Rightarrow> True)"
      by blast
  qed
  moreover have "0 \<le> httpMaxRetries cfg \<longrightarrow> int n \<le> 1 + httpMaxRetries cfg"
    using n(3) by (auto simp add: max_def split: if_splits)
  ultimately show "\<exists>n. 1 \<le> n \<and> attempts (snd (httpRequest cfg fetch parse idempotent)) = [0 ..< n] \<and>
        int n \<le> 1 + max 0 (httpMaxRetries cfg) \<and>
        (0 \<le> httpMaxRetries cfg \<longrightarrow> int n \<le> 1 + httpMaxRetries cfg) \<and>
        (\<not> idempotent \<longrightarrow> n = 1) \<and>
        (\<forall>i. Suc i < n \<longrightarrow>
           idempotent \<and> int (Suc i) \<le> httpMaxRetries cfg \<and>
           (case fetch i of
              Responded r \<Rightarrow> (\<not> ok r \<and> status r \<in> {429, 502, 503, 504}) \<or> (ok r \<and> isl (body r))
            | Aborted \<Rightarrow> True
            | Failed m \<Rightarrow> True))"
    using n(1-4) by blast
next
  assume h: "httpMaxRetries cfg' = 2 \<and>
    fetch' 0 = Responded r0 \<and> status r0 = 503 \<and>
    fetch' 1 = Responded r1 \<and> status r1 = 503 \<and>
    fetch' 2 = Responded r2 \<and> status r2 = 200 \<and> body r2 = Inr raw \<and>
    int (length raw) \<le> httpMaxResponseBytes cfg' \<and> parse' raw = Some j"
  then obtain d0 d1 where run: "httpRequest cfg' fetch' parse' True =
           (Inr j, [Fetch 0, Sleep d0, Fetch 1, Sleep d1, Fetch 2])"
    using httpRequest_503_503_200 [of cfg' fetch' r0 r1 r2 raw parse' j] by blast
  show "fst (httpRequest cfg' fetch' parse' True) = Inr j" using run by simp
  show "attempts (snd (httpRequest cfg' fetch' parse' True)) = [0, 1, 2]" using run by simp
  show "\<exists>d0 d1. snd (httpRequest cfg' fetch' parse' True) = [Fetch 0, Sleep d0, Fetch 1, Sleep d1, Fetch 2]"
    using run by simp
qed

theorem httpRequest_retry_policy_witness:
  "fst (httpRequest
     \<lparr>httpTimeout = 30000, httpMaxRetries = 2, httpRetryBase = 1, httpMaxResponseBytes = 5000000\<rparr>
     (\<lambda>i. if i < 2
        then Responded \<lparr>status = 503, statusText = ''Service Unavailable'', retryAfter = None, body = Inr []\<rparr>
        else Responded \<lparr>status = 200, statusText = ''OK'', retryAfter = None, body = Inr ''{}''\<rparr>)
     (\<lambda>s. if s = ''{}'' then Some (JObj []) else None) True) = Inr (JObj []) \<and>
   attempts (snd (httpRequest
     \<lparr>httpTimeout = 30000, httpMaxRetries = 2, httpRetryBase = 1, httpMaxResponseBytes = 5000000\<rparr>
     (\<lambda>i. if i < 2
        then Responded \<lparr>status = 503, statusText = ''Service Unavailable'', retryAfter = None, body = Inr []\<rparr>
        else Responded \<lparr>status = 200, statusText = ''OK'', retryAfter = None, body = Inr ''{}''\<rparr>)
     (\<lambda>s. if s = ''{}'' then Some (JObj []) else None) True)) = [0, 1, 2] \<and>
   attempts (snd (httpRequest
     \<lparr>httpTimeout = 30000, httpMaxRetries = 2, httpRetryBase = 1, httpMaxResponseBytes = 5000000\<rparr>
     (\<lambda>i. if i < 2
        then Responded \<lparr>status = 503, statusText = ''Service Unavailable'', retryAfter = None, body = Inr []\<rparr>
        else Responded \<lparr>status = 200, statusText = ''OK'', retryAfter = None, body = Inr ''{}''\<rparr>)
     (\<lambda>s. if s = ''{}'' then Some (JObj []) else None) False)) = [0]"
proof -
  let ?cfg = "\<lparr>httpTimeout = 30000, httpMaxRetries = 2, httpRetryBase = 1, httpMaxResponseBytes = 5000000\<rparr>"
  let ?r503 = "\<lparr>status = 503, statusText = ''Service Unavailable'', retryAfter = None, body = Inr []\<rparr>"
  let ?r200 = "\<lparr>status = 200, statusText = ''OK'', retryAfter = None, body = Inr ''{}''\<rparr>"
  let ?fetch = "\<lambda>i :: nat. if i < 2 then Responded ?r503 else Responded ?r200"
  let ?parse = "\<lambda>s. if s = ''{}'' then Some (JObj []) else None"
  note th = httpRequest_retry_policy [where cfg = ?cfg and fetch = ?fetch and parse = ?parse
      and idempotent = False and cfg' = ?cfg and fetch' = ?fetch and parse' = ?parse
      and ?r0.0 = ?r503 and ?r1.0 = ?r503 and ?r2.0 = ?r200 and raw = "''{}''" and j = "JObj []"]
  have a: "fst (httpRequest ?cfg ?fetch ?parse True) = Inr (JObj []) \<and>
    attempts (snd (httpRequest ?cfg ?fetch ?parse True)) = [0, 1, 2] \<and>
    (\<exists>d0 d1. snd (httpRequest ?cfg ?fetch ?parse True) = [Fetch 0, Sleep d0, Fetch 1, Sleep d1, Fetch 2])"
    by (rule th [THEN conjunct2, THEN mp]) simp
  obtain n where "attempts (snd (httpRequest ?cfg ?fetch ?parse False)) = [0 ..< n]" "n = 1"
    using th [THEN conjunct1] by blast
  then have b: "attempts (snd (httpRequest ?cfg ?fetch ?parse False)) = [0]" by simp
  from a b show ?thesis by blast
qed

text \<open>
  With a retry budget of -1 (the configuration takes any integer of the environment)
  the request is still attempted once, which is more than 1 + the budget.
\<close>

theorem httpRequest_negative_budget_counterexample:
  "attempts (snd (httpRequest
     \<lparr>httpTimeout = 30000, httpMaxRetries = - 1, httpRetryBase = 1, httpMaxResponseBytes = 5000000\<rparr>
     (\<lambda>i. Responded \<lparr>status = 200, statusText = ''OK'', retryAfter = None, body = Inr ''{}''\<rparr>)
     (\<lambda>s. Some (JObj [])) True)) = [0] \<and>
   \<not> int (length (attempts (snd (httpRequest
     \<lparr>httpTimeout = 30000, httpMaxRetries = - 1, httpRetryBase = 1, httpMaxResponseBytes = 5000000\<rparr>
     (\<lambda>i. Responded \<lparr>status = 200, statusText = ''OK'', retryAfter = None, body = Inr ''{}''\<rparr>)
     (\<lambda>s. Some (JObj [])) True))))
     \<le> 1 + httpMaxRetries
         \<lparr>httpTimeout = 30000, httpMaxRetries = - 1, httpRetryBase = 1, httpMaxResponseBytes = 5000000\<rparr>"
  by (simp add: httpRequest_def request_loop.simps [of _ _ _ _ _ _ 0] ok_def)

end
